theory Spec2Isabelle
  imports Complex_Main
begin

section \<open>Python values used by the junction and network services\<close>

text \<open>
  The analysed functions live in
  \<^verbatim>\<open>app/service/junction/junction_analysis.py\<close> and
  \<^verbatim>\<open>app/service/network/network_task.py\<close>. They are written in Python, so
  exceptions are values of type \<open>error\<close> and a function that may raise returns
  \<open>error + 'a\<close>.
\<close>

datatype error = ValueError | TypeError | AttributeError | KeyError | IndexError | OverflowError

text \<open>
  A Python \<^verbatim>\<open>float\<close> is a finite number, an infinity or NaN. Finite values are
  real numbers here: rounding to 53 bits and the overflow of a huge decimal literal to
  an infinity are not part of the model; the special values and the
  \<^verbatim>\<open>OverflowError\<close> of \<^verbatim>\<open>float\<close> on a huge integer are.
\<close>

datatype pyfloat = Fin real | PosInf | NegInf | NaN

fun pf_neg :: "pyfloat \<Rightarrow> pyfloat" where
  "pf_neg (Fin a) = Fin (- a)"
| "pf_neg PosInf = NegInf"
| "pf_neg NegInf = PosInf"
| "pf_neg NaN = NaN"

fun pf_add :: "pyfloat \<Rightarrow> pyfloat \<Rightarrow> pyfloat" where
  "pf_add (Fin a) (Fin b) = Fin (a + b)"
| "pf_add NaN y = NaN"
| "pf_add x NaN = NaN"
| "pf_add PosInf NegInf = NaN"
| "pf_add NegInf PosInf = NaN"
| "pf_add PosInf y = PosInf"
| "pf_add NegInf y = NegInf"
| "pf_add x PosInf = PosInf"
| "pf_add x NegInf = NegInf"

text \<open>Sign of a float that is not NaN: \<open>-1\<close>, \<open>0\<close> or \<open>1\<close>.\<close>

fun pf_sign :: "pyfloat \<Rightarrow> int" where
  "pf_sign (Fin a) = (if a < 0 then - 1 else if a = 0 then 0 else 1)"
| "pf_sign PosInf = 1"
| "pf_sign NegInf = - 1"
| "pf_sign NaN = 0"

fun pf_mul :: "pyfloat \<Rightarrow> pyfloat \<Rightarrow> pyfloat" where
  "pf_mul (Fin a) (Fin b) = Fin (a * b)"
| "pf_mul NaN y = NaN"
| "pf_mul x NaN = NaN"
| "pf_mul x y =
     (let s = pf_sign x * pf_sign y
      in if s = 0 then NaN else if 0 < s then PosInf else NegInf)"

text \<open>Comparison of floats: every comparison with NaN is false.\<close>

fun pf_lt :: "pyfloat \<Rightarrow> pyfloat \<Rightarrow> bool" where
  "pf_lt NaN y = False"
| "pf_lt x NaN = False"
| "pf_lt (Fin a) (Fin b) = (a < b)"
| "pf_lt NegInf NegInf = False"
| "pf_lt NegInf y = True"
| "pf_lt x NegInf = False"
| "pf_lt PosInf y = False"
| "pf_lt x PosInf = True"

definition pf_gt :: "pyfloat \<Rightarrow> pyfloat \<Rightarrow> bool" where
  "pf_gt x y = pf_lt y x"

fun pf_eq :: "pyfloat \<Rightarrow> pyfloat \<Rightarrow> bool" where
  "pf_eq NaN y = False"
| "pf_eq x NaN = False"
| "pf_eq x y = (x = y)"

definition pf_le :: "pyfloat \<Rightarrow> pyfloat \<Rightarrow> bool" where
  "pf_le x y = (pf_lt x y \<or> pf_eq x y)"

section \<open>Strings\<close>

text \<open>
  A Python \<^verbatim>\<open>str\<close> is a list of characters; the characters of the model are the
  code points below 256. \<open>is_space\<close> is \<^verbatim>\<open>str.isspace\<close> on that range, which is also
  what \<^verbatim>\<open>\s\<close> of the \<^verbatim>\<open>re\<close> module and \<^verbatim>\<open>float\<close> treat as white space;
  \<open>is_digit\<close> is \<^verbatim>\<open>\d\<close> there. \<open>lower_char\<close> and \<open>upper_char\<close> change the ASCII
  letters only (the accented letters they leave alone are in no pattern, number or
  enum name of the source).
\<close>

definition is_digit :: "char \<Rightarrow> bool" where
  "is_digit c = (c \<in> set ''0123456789'')"

definition is_space :: "char \<Rightarrow> bool" where
  "is_space c = (c \<in> set [CHR 0x09, CHR 0x0A, CHR 0x0B, CHR 0x0C, CHR 0x0D,
                           CHR 0x1C, CHR 0x1D, CHR 0x1E, CHR 0x1F, CHR 0x20,
                           CHR 0x85, CHR 0xA0])"

definition is_lower_az :: "char \<Rightarrow> bool" where
  "is_lower_az c = (c \<in> set ''abcdefghijklmnopqrstuvwxyz'')"

definition lower_char :: "char \<Rightarrow> char" where
  "lower_char c =
     (case map_of (zip ''ABCDEFGHIJKLMNOPQRSTUVWXYZ'' ''abcdefghijklmnopqrstuvwxyz'') c of
        Some d \<Rightarrow> d | None \<Rightarrow> c)"

definition upper_char :: "char \<Rightarrow> char" where
  "upper_char c =
     (case map_of (zip ''abcdefghijklmnopqrstuvwxyz'' ''ABCDEFGHIJKLMNOPQRSTUVWXYZ'') c of
        Some d \<Rightarrow> d | None \<Rightarrow> c)"

definition lower :: "string \<Rightarrow> string" where
  "lower s = map lower_char s"

definition upper :: "string \<Rightarrow> string" where
  "upper s = map upper_char s"

definition strip :: "string \<Rightarrow> string" where
  "strip s = rev (dropWhile is_space (rev (dropWhile is_space s)))"

definition digit_val :: "char \<Rightarrow> nat" where
  "digit_val c = of_char c - 48"

definition digits_val :: "string \<Rightarrow> nat" where
  "digits_val ds = foldl (\<lambda>a d. 10 * a + digit_val d) 0 ds"

subsection \<open>Number literals: \<^verbatim>\<open>float(str)\<close> and \<^verbatim>\<open>int(str)\<close>\<close>

text \<open>
  A digit part is \<^verbatim>\<open>digit (["_"] digit)*\<close>: it starts and ends with a digit and has
  no two underscores in a row.
\<close>

definition is_digit_or_us :: "char \<Rightarrow> bool" where
  "is_digit_or_us c = (is_digit c \<or> c = CHR ''_'')"

fun no_double_us :: "string \<Rightarrow> bool" where
  "no_double_us (a # b # cs) = (\<not> (a = CHR ''_'' \<and> b = CHR ''_'') \<and> no_double_us (b # cs))"
| "no_double_us cs = True"

definition valid_digitpart :: "string \<Rightarrow> bool" where
  "valid_digitpart ds =
     (ds \<noteq> [] \<and> list_all is_digit_or_us ds \<and> is_digit (hd ds) \<and> is_digit (last ds)
      \<and> no_double_us ds)"

definition digitpart_val :: "string \<Rightarrow> nat" where
  "digitpart_val ds = digits_val (filter is_digit ds)"

text \<open>An optional sign in front of a literal: the flag says that it was a minus.\<close>

definition split_sign :: "string \<Rightarrow> bool \<times> string" where
  "split_sign s =
     (case s of
        [] \<Rightarrow> (False, s)
      | c # t \<Rightarrow> if c = CHR ''-'' then (True, t)
                 else if c = CHR ''+'' then (False, t) else (False, s))"

text \<open>
  The exponent of a float literal: nothing, or \<^verbatim>\<open>e\<close>, an optional sign and a
  digit part that ends the literal. \<open>None\<close> is a malformed exponent.
\<close>

definition parse_exponent :: "string \<Rightarrow> int option" where
  "parse_exponent r =
     (case r of
        [] \<Rightarrow> Some 0
      | c # t \<Rightarrow>
          if c \<noteq> CHR ''e'' then None
          else (let (neg, ds) = split_sign t
                in if valid_digitpart ds
                   then Some (if neg then - int (digitpart_val ds) else int (digitpart_val ds))
                   else None))"

definition scale10 :: "real \<Rightarrow> int \<Rightarrow> real" where
  "scale10 m e = (if 0 \<le> e then m * 10 ^ nat e else m / 10 ^ nat (- e))"

text \<open>
  The decimal part of \<^verbatim>\<open>float(str)\<close>, on a lower-cased literal without its sign:
  integer digits, an optional point with fraction digits, an optional exponent; at
  least one of the two digit parts is there.
\<close>

definition parse_decimal :: "string \<Rightarrow> real option" where
  "parse_decimal r =
     (let ip = takeWhile is_digit_or_us r;
          r1 = dropWhile is_digit_or_us r;
          (fp, r2) = (case r1 of
                        [] \<Rightarrow> ([], r1)
                      | c # t \<Rightarrow> if c = CHR ''.''
                                 then (takeWhile is_digit_or_us t, dropWhile is_digit_or_us t)
                                 else ([], r1))
      in if (ip = [] \<and> fp = []) \<or> \<not> (ip = [] \<or> valid_digitpart ip)
            \<or> \<not> (fp = [] \<or> valid_digitpart fp)
         then None
         else (case parse_exponent r2 of
                 None \<Rightarrow> None
               | Some e \<Rightarrow>
                   Some (scale10 (real (digitpart_val ip)
                                   + real (digitpart_val fp) / 10 ^ length (filter is_digit fp)) e)))"

text \<open>\<^verbatim>\<open>float(s)\<close> for a string \<open>s\<close>; \<open>None\<close> is \<^verbatim>\<open>ValueError\<close>.\<close>

definition float_of_str :: "string \<Rightarrow> pyfloat option" where
  "float_of_str s0 =
     (let (neg, r) = split_sign (lower (strip s0))
      in if r = ''inf'' \<or> r = ''infinity'' then Some (if neg then NegInf else PosInf)
         else if r = ''nan'' then Some NaN
         else (case parse_decimal r of
                 None \<Rightarrow> None
               | Some v \<Rightarrow> Some (Fin (if neg then - v else v))))"

text \<open>\<^verbatim>\<open>int(s)\<close> for a string \<open>s\<close> (base 10); \<open>None\<close> is \<^verbatim>\<open>ValueError\<close>.\<close>

definition int_of_str :: "string \<Rightarrow> int option" where
  "int_of_str s0 =
     (let (neg, ds) = split_sign (strip s0)
      in if valid_digitpart ds
         then Some (if neg then - int (digitpart_val ds) else int (digitpart_val ds))
         else None)"

section \<open>Width strings: \<^verbatim>\<open>_convert_to_meters\<close>\<close>

text \<open>
  \<^verbatim>\<open>re.match(r"^(\d+)\s*'\s*(\d+)", s)\<close>: the two groups. The classes of the pattern
  are disjoint, so the greedy match is the only one and it is read off from the left.
\<close>

definition match_feet_inches :: "string \<Rightarrow> (string \<times> string) option" where
  "match_feet_inches s =
     (let ft = takeWhile is_digit s;
          r1 = dropWhile is_space (dropWhile is_digit s)
      in if ft = [] then None
         else (case r1 of
                 [] \<Rightarrow> None
               | c # r2 \<Rightarrow>
                   if c \<noteq> CHR 0x27 then None
                   else (let inch = takeWhile is_digit (dropWhile is_space r2)
                         in if inch = [] then None else Some (ft, inch))))"

text \<open>\<^verbatim>\<open>re.match(r"^([\d\.]+)\s*([a-z]+)", s)\<close>: the number and the unit.\<close>

definition is_digit_or_dot :: "char \<Rightarrow> bool" where
  "is_digit_or_dot c = (is_digit c \<or> c = CHR ''.'')"

definition match_num_unit :: "string \<Rightarrow> (string \<times> string) option" where
  "match_num_unit s =
     (let num = takeWhile is_digit_or_dot s;
          unit = takeWhile is_lower_az (dropWhile is_space (dropWhile is_digit_or_dot s))
      in if num = [] \<or> unit = [] then None else Some (num, unit))"

text \<open>
  The last step of the source, \<^verbatim>\<open>try: return float(s) except ValueError: return 0.0\<close>.
\<close>

definition bare_number :: "string \<Rightarrow> pyfloat" where
  "bare_number s = (case float_of_str s of Some f \<Rightarrow> f | None \<Rightarrow> Fin 0)"

text \<open>
  \<^verbatim>\<open>_convert_to_meters(val)\<close>. The two \<^verbatim>\<open>float\<close> calls on the groups of a match are
  outside the source's \<^verbatim>\<open>try\<close>, so their \<^verbatim>\<open>ValueError\<close> leaves the function.
\<close>

definition convert_to_meters :: "string \<Rightarrow> error + pyfloat" where
  "convert_to_meters val =
     (let s = lower (strip val)
      in case match_feet_inches s of
           Some (ft, inch) \<Rightarrow>
             (case float_of_str ft of
                None \<Rightarrow> Inl ValueError
              | Some f \<Rightarrow>
                  (case float_of_str inch of
                     None \<Rightarrow> Inl ValueError
                   | Some i \<Rightarrow> Inr (pf_add (pf_mul f (Fin 0.3048)) (pf_mul i (Fin 0.0254)))))
         | None \<Rightarrow>
             (case match_num_unit s of
                None \<Rightarrow> Inr (bare_number s)
              | Some (num, unit) \<Rightarrow>
                  (case float_of_str num of
                     None \<Rightarrow> Inl ValueError
                   | Some f \<Rightarrow>
                       if unit \<in> set [''m'', ''meter'', ''meters''] then Inr f
                       else if unit \<in> set [''km'', ''kilometer'', ''kilometre'']
                         then Inr (pf_mul f (Fin 1000))
                       else if unit \<in> set [''mi'', ''mile'', ''miles'']
                         then Inr (pf_mul f (Fin 1609.344))
                       else if unit \<in> set [''ft'', ''feet'']
                         then Inr (pf_mul f (Fin 0.3048))
                       else if unit \<in> set [''in'', ''inch'', ''inches'']
                         then Inr (pf_mul f (Fin 0.0254))
                       else Inr (bare_number s))))"

section \<open>Loosely typed tag data\<close>

text \<open>
  Edge attributes, edge metadata and the ODD specification are dictionaries from
  attribute names to values that came from OSM tags or from JSON: nothing, a boolean,
  a number, a string or a list of values.
\<close>

datatype pyval = VNone | VBool bool | VInt int | VFloat pyfloat | VStr string
  | VList "pyval list"

type_synonym pydict = "string \<rightharpoonup> pyval"

text \<open>\<^verbatim>\<open>d.get(k)\<close> and \<^verbatim>\<open>d.get(k, default)\<close>.\<close>

definition dict_get :: "pydict \<Rightarrow> string \<Rightarrow> pyval \<Rightarrow> pyval" where
  "dict_get d k dflt = (case d k of None \<Rightarrow> dflt | Some v \<Rightarrow> v)"

text \<open>Truth value of an object, as \<^verbatim>\<open>not x\<close> and \<^verbatim>\<open>if x\<close> test it.\<close>

fun truthy :: "pyval \<Rightarrow> bool" where
  "truthy VNone = False"
| "truthy (VBool b) = b"
| "truthy (VInt n) = (n \<noteq> 0)"
| "truthy (VFloat f) = (f \<noteq> Fin 0)"
| "truthy (VStr s) = (s \<noteq> [])"
| "truthy (VList xs) = (xs \<noteq> [])"

text \<open>
  \<^verbatim>\<open>==\<close>: booleans, integers and floats compare by their numeric value, strings and
  \<^verbatim>\<open>None\<close> with themselves, lists element by element.
\<close>

fun num_of :: "pyval \<Rightarrow> pyfloat option" where
  "num_of (VBool b) = Some (Fin (of_bool b))"
| "num_of (VInt n) = Some (Fin (real_of_int n))"
| "num_of (VFloat f) = Some f"
| "num_of v = None"

fun py_eq :: "pyval \<Rightarrow> pyval \<Rightarrow> bool"
  and py_eq_list :: "pyval list \<Rightarrow> pyval list \<Rightarrow> bool" where
  "py_eq (VList xs) (VList ys) = py_eq_list xs ys"
| "py_eq VNone VNone = True"
| "py_eq (VStr s) (VStr t) = (s = t)"
| "py_eq a b = (case (num_of a, num_of b) of (Some x, Some y) \<Rightarrow> pf_eq x y | _ \<Rightarrow> False)"
| "py_eq_list [] [] = True"
| "py_eq_list (x # xs) (y # ys) = (py_eq x y \<and> py_eq_list xs ys)"
| "py_eq_list xs ys = False"

text \<open>\<^verbatim>\<open>x in xs\<close> for a list \<open>xs\<close>.\<close>

definition py_in :: "pyval \<Rightarrow> pyval list \<Rightarrow> bool" where
  "py_in x xs = list_ex (\<lambda>y. py_eq y x) xs"

text \<open>
  \<^verbatim>\<open>float(n)\<close> of an integer: an integer whose nearest double lies beyond the largest
  one, that is from \<open>2 ^ 1024 - 2 ^ 970\<close> on in absolute value, raises
  \<^verbatim>\<open>OverflowError\<close>.
\<close>

definition float_of_int :: "int \<Rightarrow> error + pyfloat" where
  "float_of_int n =
     (if 2 ^ 1024 - 2 ^ 970 \<le> \<bar>n\<bar> then Inl OverflowError else Inr (Fin (real_of_int n)))"

text \<open>
  \<^verbatim>\<open>float(x)\<close> under \<^verbatim>\<open>except (TypeError, ValueError): return None\<close>, the helper
  \<^verbatim>\<open>to_float\<close> of \<^verbatim>\<open>get_min_numeric\<close>. The two caught errors give \<^verbatim>\<open>None\<close>; the
  \<^verbatim>\<open>OverflowError\<close> of a huge integer is not caught and leaves the helper.
\<close>

fun to_float :: "pyval \<Rightarrow> error + pyfloat option" where
  "to_float VNone = Inr None"
| "to_float (VBool b) = Inr (Some (Fin (of_bool b)))"
| "to_float (VInt n) = (case float_of_int n of Inl e \<Rightarrow> Inl e | Inr f \<Rightarrow> Inr (Some f))"
| "to_float (VFloat f) = Inr (Some f)"
| "to_float (VStr s) = Inr (float_of_str s)"
| "to_float (VList xs) = Inr None"

text \<open>
  The two list comprehensions of \<^verbatim>\<open>get_min_numeric\<close>: \<^verbatim>\<open>to_float\<close> of every element
  in order, an exception ending the evaluation, and the results other than \<^verbatim>\<open>None\<close>.
\<close>

fun numeric_vals :: "pyval list \<Rightarrow> error + pyfloat list" where
  "numeric_vals [] = Inr []"
| "numeric_vals (v # vs) =
     (case to_float v of
        Inl e \<Rightarrow> Inl e
      | Inr r \<Rightarrow>
          (case numeric_vals vs of
             Inl e \<Rightarrow> Inl e
           | Inr fs \<Rightarrow> Inr (case r of None \<Rightarrow> fs | Some f \<Rightarrow> f # fs)))"

text \<open>
  \<^verbatim>\<open>min\<close> and \<^verbatim>\<open>max\<close> of a non-empty sequence: the first element is kept until a
  later one compares smaller (greater), so the first of equal elements wins and a NaN
  is never replaced nor chosen over what is held.
\<close>

definition py_min :: "pyfloat \<Rightarrow> pyfloat list \<Rightarrow> pyfloat" where
  "py_min x xs = foldl (\<lambda>m y. if pf_lt y m then y else m) x xs"

definition py_max :: "pyfloat \<Rightarrow> pyfloat list \<Rightarrow> pyfloat" where
  "py_max x xs = foldl (\<lambda>m y. if pf_gt y m then y else m) x xs"

text \<open>\<^verbatim>\<open>int(x)\<close>: truncation of a finite float, the literal of a string.\<close>

fun py_int :: "pyval \<Rightarrow> error + int" where
  "py_int VNone = Inl TypeError"
| "py_int (VBool b) = Inr (of_bool b)"
| "py_int (VInt n) = Inr n"
| "py_int (VFloat (Fin r)) = Inr (if 0 \<le> r then \<lfloor>r\<rfloor> else \<lceil>r\<rceil>)"
| "py_int (VFloat NaN) = Inl ValueError"
| "py_int (VFloat f) = Inl OverflowError"
| "py_int (VStr s) = (case int_of_str s of None \<Rightarrow> Inl ValueError | Some n \<Rightarrow> Inr n)"
| "py_int (VList xs) = Inl TypeError"

section \<open>Edge-level ODD compliance: \<^verbatim>\<open>check_single_edge_odd_compliance\<close>\<close>

text \<open>
  One pass of the loop over \<^verbatim>\<open>compliance_rules\<close>: \<open>odd_value\<close> is the ODD's entry
  (\<^verbatim>\<open>'ALL'\<close> when absent) and \<open>value\<close> the metadata's. The result is false where the
  source returns \<^verbatim>\<open>False\<close>.
\<close>

definition rule_ok :: "pyval \<Rightarrow> pyval \<Rightarrow> bool" where
  "rule_ok odd_value value =
     (case odd_value of
        VList (x # xs) \<Rightarrow>
          \<not> (\<not> py_in (VStr ''ALL'') (x # xs) \<and> (value = VNone \<or> \<not> py_in value (x # xs)))
      | _ \<Rightarrow> \<not> (\<not> py_eq odd_value (VStr ''ALL'') \<and> \<not> py_eq value odd_value))"

text \<open>
  \<^verbatim>\<open>if isinstance(flag, list) and len(flag) > 0: flag = flag[0]\<close>, applied to the
  \<^verbatim>\<open>oneway\<close> and \<^verbatim>\<open>is_major_road\<close> policies.
\<close>

definition unwrap_flag :: "pyval \<Rightarrow> pyval" where
  "unwrap_flag v = (case v of VList (x # xs) \<Rightarrow> x | _ \<Rightarrow> v)"

definition flag_ok :: "pydict \<Rightarrow> pydict \<Rightarrow> string \<Rightarrow> bool" where
  "flag_ok odd_spec metadata k =
     (\<not> (\<not> truthy (unwrap_flag (dict_get odd_spec k (VBool True)))
         \<and> \<not> truthy (dict_get metadata k VNone)))"

text \<open>
  The nested helper \<^verbatim>\<open>get_min_numeric(source, key, fallback)\<close>: the least numeric
  value of a list, the numeric value of anything else, \<^verbatim>\<open>None\<close> where there is none.
\<close>

definition get_min_numeric :: "pydict \<Rightarrow> string \<Rightarrow> pyval \<Rightarrow> error + pyfloat option" where
  "get_min_numeric source k fallback =
     (case dict_get source k fallback of
        VList vs \<Rightarrow>
          (case numeric_vals vs of
             Inl e \<Rightarrow> Inl e
           | Inr [] \<Rightarrow> Inr None
           | Inr (x # xs) \<Rightarrow> Inr (Some (py_min x xs)))
      | val \<Rightarrow> to_float val)"

text \<open>
  The two threshold checks at the end of the function, on the values that
  \<^verbatim>\<open>get_min_numeric\<close> resolved: the speed-limit ceiling and the lane-width floor. A
  check with a \<^verbatim>\<open>None\<close> on either side is skipped.
\<close>

definition speed_limit_ok :: "pyfloat option \<Rightarrow> pyfloat option \<Rightarrow> bool" where
  "speed_limit_ok min_speed_limit odd_speed_limit =
     (case (min_speed_limit, odd_speed_limit) of
        (Some m, Some c) \<Rightarrow> \<not> pf_gt m c
      | _ \<Rightarrow> True)"

definition lane_width_ok :: "pyfloat option \<Rightarrow> pyfloat option \<Rightarrow> bool" where
  "lane_width_ok min_lane_width odd_lane_width =
     (case (min_lane_width, odd_lane_width) of
        (Some m, Some c) \<Rightarrow> \<not> pf_lt m c
      | _ \<Rightarrow> True)"

text \<open>
  \<^verbatim>\<open>check_single_edge_odd_compliance(odd, metadata)\<close>. The four numeric values are
  resolved, in the order of the source, before either threshold is tested; the
  metadata fallbacks are 999 for the speed limit and 0 for the lane width. An
  \<^verbatim>\<open>OverflowError\<close> of \<^verbatim>\<open>get_min_numeric\<close> leaves the function.
\<close>

definition check_single_edge_odd_compliance :: "pydict \<Rightarrow> pydict \<Rightarrow> error + bool" where
  "check_single_edge_odd_compliance odd_spec metadata =
     (if \<not> rule_ok (dict_get odd_spec ''highway_type'' (VStr ''ALL''))
                    (dict_get metadata ''highway_type'' VNone) then Inr False
      else if \<not> rule_ok (dict_get odd_spec ''lane_markings'' (VStr ''ALL''))
                         (dict_get metadata ''lane_markings_forward'' VNone) then Inr False
      else if \<not> flag_ok odd_spec metadata ''oneway'' then Inr False
      else if \<not> flag_ok odd_spec metadata ''is_major_road'' then Inr False
      else (case get_min_numeric metadata ''speed_limit'' (VInt 999) of
              Inl e \<Rightarrow> Inl e
            | Inr min_speed_limit \<Rightarrow>
        (case get_min_numeric odd_spec ''speed_limit'' VNone of
              Inl e \<Rightarrow> Inl e
            | Inr odd_speed_limit \<Rightarrow>
        (case get_min_numeric metadata ''lane_width'' (VInt 0) of
              Inl e \<Rightarrow> Inl e
            | Inr min_lane_width \<Rightarrow>
        (case get_min_numeric odd_spec ''lane_width'' VNone of
              Inl e \<Rightarrow> Inl e
            | Inr odd_lane_width \<Rightarrow>
                if \<not> speed_limit_ok min_speed_limit odd_speed_limit then Inr False
                else if \<not> lane_width_ok min_lane_width odd_lane_width then Inr False
                else Inr True)))))"

section \<open>Junction analysis: the enumerations of \<^verbatim>\<open>junction_models.py\<close>\<close>

datatype JunctionType = ROUNDABOUT | CIRCULAR | JUGHANDLE | MINI_ROUNDABOUT
  | TURNING_CIRCLE | TURNING_LOOP | MOTORWAY_JUNCTION | ISLAND | PASSING_PLACE
  | T_JUNCTION | Y_JUNCTION | CROSSROAD

datatype Direction = THRU | TURN | CROSS | REVERSE

datatype NbrPosition = OPP | NEAR | FAR

datatype JuncConflict = INTERSECT | MERGE | NO_CONFLICT

datatype LaneTurn = THROUGH | LEFT | SLIGHT_LEFT | SHARP_LEFT | RIGHT | SLIGHT_RIGHT
  | SHARP_RIGHT | LT_REVERSE | MERGE_TO_LEFT | MERGE_TO_RIGHT

text \<open>
  \<^verbatim>\<open>Enum[name]\<close> looks a member up by its name and raises \<^verbatim>\<open>KeyError\<close> for any other
  string. \<open>LT_REVERSE\<close> is the member \<^verbatim>\<open>LaneTurn.REVERSE\<close>.
\<close>

definition LaneTurn_members :: "(string \<times> LaneTurn) list" where
  "LaneTurn_members =
     [(''THROUGH'', THROUGH), (''LEFT'', LEFT), (''SLIGHT_LEFT'', SLIGHT_LEFT),
      (''SHARP_LEFT'', SHARP_LEFT), (''RIGHT'', RIGHT), (''SLIGHT_RIGHT'', SLIGHT_RIGHT),
      (''SHARP_RIGHT'', SHARP_RIGHT), (''REVERSE'', LT_REVERSE),
      (''MERGE_TO_LEFT'', MERGE_TO_LEFT), (''MERGE_TO_RIGHT'', MERGE_TO_RIGHT)]"

definition Direction_members :: "(string \<times> Direction) list" where
  "Direction_members =
     [(''THRU'', THRU), (''TURN'', TURN), (''CROSS'', CROSS), (''REVERSE'', REVERSE)]"

definition NbrPosition_members :: "(string \<times> NbrPosition) list" where
  "NbrPosition_members = [(''OPP'', OPP), (''NEAR'', NEAR), (''FAR'', FAR)]"

definition JuncConflict_members :: "(string \<times> JuncConflict) list" where
  "JuncConflict_members =
     [(''INTERSECT'', INTERSECT), (''MERGE'', MERGE), (''NO_CONFLICT'', NO_CONFLICT)]"

section \<open>Lane data of an edge: \<^verbatim>\<open>_parse_lane_data\<close>\<close>

text \<open>\<^verbatim>\<open>s.split(sep)\<close> for a one-character separator: there is always one piece.\<close>

fun split_on :: "char \<Rightarrow> string \<Rightarrow> string list" where
  "split_on sep [] = [[]]"
| "split_on sep (c # cs) =
     (if c = sep then [] # split_on sep cs
      else (case split_on sep cs of
              [] \<Rightarrow> [[c]]
            | p # ps \<Rightarrow> (c # p) # ps))"

text \<open>
  \<^verbatim>\<open>str(x)\<close>: a string is itself. The text Python prints for any other object is the
  parameter \<open>repr\<close> of the model.
\<close>

definition py_str :: "(pyval \<Rightarrow> string) \<Rightarrow> pyval \<Rightarrow> string" where
  "py_str repr v = (case v of VStr s \<Rightarrow> s | _ \<Rightarrow> repr v)"

text \<open>\<^verbatim>\<open>len(x)\<close> of a string or a list; other tag values have no length.\<close>

fun py_len :: "pyval \<Rightarrow> error + int" where
  "py_len (VStr s) = Inr (int (length s))"
| "py_len (VList xs) = Inr (int (length xs))"
| "py_len v = Inl TypeError"

definition side_of :: "pydict \<Rightarrow> string" where
  "side_of data = (if truthy (dict_get data ''reversed'' VNone) then ''backward'' else ''forward'')"

text \<open>
  The inner loop over one lane: the pieces between \<^verbatim>\<open>;\<close>, stripped and upper-cased;
  an empty piece and an unknown turn code are skipped.
\<close>

definition lane_turns :: "string \<Rightarrow> LaneTurn list" where
  "lane_turns lane_str =
     List.map_filter
       (\<lambda>direction. let d = upper (strip direction)
                     in if d = [] then None else map_of LaneTurn_members d)
       (split_on (CHR '';'') lane_str)"

text \<open>
  The list \<^verbatim>\<open>lanes\<close>: empty for a tag that is not truthy, the tag itself when it is a
  list, its pieces between \<^verbatim>\<open>|\<close> when it is a string. Any other truthy value has no
  \<^verbatim>\<open>split\<close>.
\<close>

definition turn_lanes :: "pyval \<Rightarrow> error + pyval list" where
  "turn_lanes tag_raw =
     (if \<not> truthy tag_raw then Inr []
      else (case tag_raw of
              VList xs \<Rightarrow> Inr xs
            | VStr s \<Rightarrow> Inr (map VStr (split_on (CHR ''|'') s))
            | _ \<Rightarrow> Inl AttributeError))"

text \<open>
  \<^verbatim>\<open>try: n = int(v) except (ValueError, TypeError): ...\<close>: the two errors are caught,
  an \<^verbatim>\<open>OverflowError\<close> (the integer of an infinite float) is not. The
  \<^verbatim>\<open>IndexError\<close> that the list branch also catches is the empty list below.
\<close>

definition caught :: "error \<Rightarrow> bool" where
  "caught e = (e = ValueError \<or> e = TypeError)"

text \<open>
  \<^verbatim>\<open>_parse_lane_data(data)\<close>: the set of turns, the number of lanes and whether that
  number is an estimate.
\<close>

definition parse_lane_data ::
  "(pyval \<Rightarrow> string) \<Rightarrow> pydict \<Rightarrow> error + (LaneTurn set \<times> int \<times> bool)" where
  "parse_lane_data repr data =
     (let side = side_of data;
          tag_raw = dict_get data (''turn:lanes:'' @ side) (VStr [])
      in case turn_lanes tag_raw of
           Inl e \<Rightarrow> Inl e
         | Inr lanes \<Rightarrow>
             (let found = concat (map (\<lambda>l. lane_turns (py_str repr l)) lanes);
                  turns = (if found = [] then {THROUGH} else set found);
                  lanes_val = dict_get data (''lanes:'' @ side) VNone
              in case lanes_val of
                   VList ls \<Rightarrow>
                     (if truthy tag_raw
                      then (case py_len tag_raw of
                              Inl e \<Rightarrow> Inl e
                            | Inr n \<Rightarrow> Inr (turns, n, False))
                      else (case ls of
                              [] \<Rightarrow> Inr (turns, 1, True)
                            | x # xs \<Rightarrow>
                                (case py_int x of
                                   Inr n \<Rightarrow> Inr (turns, n, True)
                                 | Inl e \<Rightarrow> if caught e then Inr (turns, 1, True) else Inl e)))
                 | VNone \<Rightarrow> Inr (turns, 1, True)
                 | v \<Rightarrow>
                     (case py_int v of
                        Inr n \<Rightarrow> Inr (turns, n, False)
                      | Inl e \<Rightarrow> if caught e then Inr (turns, 1, True) else Inl e)))"

text \<open>The lane count and the estimate flag of a result.\<close>

definition lane_count :: "error + (LaneTurn set \<times> int \<times> bool) \<Rightarrow> error + (int \<times> bool)" where
  "lane_count r = (case r of Inl e \<Rightarrow> Inl e | Inr (turns, n, est) \<Rightarrow> Inr (n, est))"

section \<open>Junction type by degree and angle: \<^verbatim>\<open>classify_node_other\<close>\<close>

type_synonym point = "real \<times> real"

text \<open>
  What the classification reads of the road graph: the coordinates of a node (every
  node of the graph carries \<^verbatim>\<open>x\<close> and \<^verbatim>\<open>y\<close>) and the list of its neighbours in the
  undirected view, in the order the graph library yields them.
\<close>

record road_graph =
  node_xy :: "int \<Rightarrow> point"
  und_neighbors :: "int \<Rightarrow> int list"

text \<open>
  \<^verbatim>\<open>_calculate_angle(p1, p2, p3)\<close>: the angle in degrees between \<open>p2 - p1\<close> and
  \<open>p3 - p2\<close>. When one of the two vectors has length zero the quotient is \<open>0 / 0\<close>,
  which numpy evaluates to NaN.
\<close>

definition calculate_angle :: "point \<Rightarrow> point \<Rightarrow> point \<Rightarrow> pyfloat" where
  "calculate_angle p1 p2 p3 =
     (let vec1 = (fst p2 - fst p1, snd p2 - snd p1);
          vec2 = (fst p3 - fst p2, snd p3 - snd p2);
          dot_product = fst vec1 * fst vec2 + snd vec1 * snd vec2;
          norm1 = sqrt ((fst vec1)\<^sup>2 + (snd vec1)\<^sup>2);
          norm2 = sqrt ((fst vec2)\<^sup>2 + (snd vec2)\<^sup>2)
      in if norm1 * norm2 = 0 then NaN
         else (let cos_angle = dot_product / (norm1 * norm2);
                   angle = arccos (max (- 1) (min 1 cos_angle))
               in Fin (angle * 180 / pi)))"

definition classify_node_other :: "road_graph \<Rightarrow> int \<Rightarrow> real \<Rightarrow> JunctionType option" where
  "classify_node_other G node_id angle_threshold =
     (let nbrs = und_neighbors G node_id;
          deg = length nbrs
      in if deg \<le> 2 then None
         else if deg \<ge> 4 then Some CROSSROAD
         else (let p0 = node_xy G node_id;
                   pts = map (node_xy G) nbrs;
                   angles = map (\<lambda>i. calculate_angle (pts ! i) p0 (pts ! ((i + 1) mod 3)))
                                [0 ..< 3]
               in if pf_le (py_max (hd angles) (tl angles)) (Fin angle_threshold)
                  then Some T_JUNCTION
                  else Some Y_JUNCTION))"

section \<open>Position of one leg relative to another: \<^verbatim>\<open>get_position\<close>\<close>

text \<open>
  A leg of a junction node, the dictionary that \<^verbatim>\<open>get_legs\<close> builds. \<open>in_turns\<close> is
  \<^verbatim>\<open>None\<close> or a set of turns, kept as the list of its elements in iteration order;
  \<open>geom\<close> is the edge's geometry, when it has one.
\<close>

record 'g leg =
  nbr_id :: int
  nbr_coord :: point
  in_turns :: "LaneTurn list option"
  geom :: "'g option"

text \<open>
  The operations of the geometry library on a line that \<^verbatim>\<open>get_dir_vector\<close> calls:
  \<^verbatim>\<open>geom.project(pt)\<close>, \<^verbatim>\<open>geom.interpolate(d)\<close> and \<^verbatim>\<open>geom.length\<close>. They are
  parameters of the model, for any type \<open>'g\<close> of line geometries.
\<close>

record 'g line_ops =
  project :: "'g \<Rightarrow> point \<Rightarrow> real"
  interpolate :: "'g \<Rightarrow> real \<Rightarrow> point"
  line_length :: "'g \<Rightarrow> real"

text \<open>
  The nested \<^verbatim>\<open>get_dir_vector(leg)\<close>. A leg without geometry has the value
  \<^verbatim>\<open>None\<close> there, which has no \<^verbatim>\<open>project\<close>.
\<close>

definition get_dir_vector :: "'g line_ops \<Rightarrow> point \<Rightarrow> 'g leg \<Rightarrow> error + point" where
  "get_dir_vector ops node_pt l =
     (case geom l of
        None \<Rightarrow> Inl AttributeError
      | Some g \<Rightarrow>
          (let proj_dist = project ops g node_pt;
               pt_on = interpolate ops g proj_dist;
               eps = min (line_length ops g * 0.01) 0.001;
               pt2 = (if proj_dist + eps \<le> line_length ops g
                      then interpolate ops g (proj_dist + eps)
                      else interpolate ops g (proj_dist - eps))
           in Inr (fst pt2 - fst pt_on, snd pt2 - snd pt_on)))"

text \<open>The body of \<^verbatim>\<open>get_position\<close> after the two direction vectors are there.\<close>

definition position_of_vectors :: "point \<Rightarrow> point \<Rightarrow> real \<Rightarrow> bool \<Rightarrow> NbrPosition" where
  "position_of_vectors v1 v2 angle_threshold right_lane_drive =
     (let dot = fst v1 * fst v2 + snd v1 * snd v2;
          mag1 = sqrt ((fst v1)\<^sup>2 + (snd v1)\<^sup>2);
          mag2 = sqrt ((fst v2)\<^sup>2 + (snd v2)\<^sup>2)
      in if mag1 = 0 \<or> mag2 = 0 then FAR
         else (let cosang = max (- 1) (min 1 (dot / (mag1 * mag2)));
                   angle = arccos cosang * 180 / pi
               in if angle > 180 - angle_threshold then OPP
                  else if \<bar>angle - 90\<bar> < angle_threshold
                  then (let cross = fst v1 * snd v2 - snd v1 * fst v2
                        in if right_lane_drive
                           then (if cross < 0 then NEAR else FAR)
                           else (if cross > 0 then NEAR else FAR))
                  else FAR))"

definition get_position ::
  "'g line_ops \<Rightarrow> road_graph \<Rightarrow> int \<Rightarrow> 'g leg \<Rightarrow> 'g leg \<Rightarrow> real \<Rightarrow> bool \<Rightarrow> error + NbrPosition"
  where
  "get_position ops G node_id leg1 leg2 angle_threshold right_lane_drive =
     (let node_pt = node_xy G node_id
      in case get_dir_vector ops node_pt leg1 of
           Inl e \<Rightarrow> Inl e
         | Inr v1 \<Rightarrow>
             (case get_dir_vector ops node_pt leg2 of
                Inl e \<Rightarrow> Inl e
              | Inr v2 \<Rightarrow> Inr (position_of_vectors v1 v2 angle_threshold right_lane_drive)))"

section \<open>Conflicts of a pair of legs: \<^verbatim>\<open>count_pair_interaction\<close>\<close>

text \<open>
  An entry of the classifier table is a dictionary of strings. \<^verbatim>\<open>Enum[entry[key]]\<close>
  raises \<^verbatim>\<open>KeyError\<close> when the key is missing and when the string names no member.
\<close>

type_synonym classifier_row = "string \<rightharpoonup> string"

definition enum_of :: "(string \<times> 'a) list \<Rightarrow> classifier_row \<Rightarrow> string \<Rightarrow> error + 'a" where
  "enum_of members entry k =
     (case entry k of
        None \<Rightarrow> Inl KeyError
      | Some name \<Rightarrow> (case map_of members name of None \<Rightarrow> Inl KeyError | Some m \<Rightarrow> Inr m))"

text \<open>
  \<^verbatim>\<open>get_conflict_type\<close>: the first entry that matches decides. The three tests of an
  entry are joined by \<^verbatim>\<open>and\<close>, so a later field is read only when the earlier ones
  match, and \<^verbatim>\<open>conflict\<close> only in the matching entry.
\<close>

fun get_conflict_type ::
  "Direction \<Rightarrow> Direction \<Rightarrow> NbrPosition \<Rightarrow> classifier_row list \<Rightarrow> error + JuncConflict" where
  "get_conflict_type this_move other_move nbr_pos [] = Inr NO_CONFLICT"
| "get_conflict_type this_move other_move nbr_pos (entry # rest) =
     (case enum_of Direction_members entry ''this_move'' of
        Inl e \<Rightarrow> Inl e
      | Inr tm \<Rightarrow>
          if tm \<noteq> this_move then get_conflict_type this_move other_move nbr_pos rest
          else (case enum_of Direction_members entry ''other_move'' of
                  Inl e \<Rightarrow> Inl e
                | Inr om \<Rightarrow>
                    if om \<noteq> other_move
                    then get_conflict_type this_move other_move nbr_pos rest
                    else (case enum_of NbrPosition_members entry ''nbr_pos'' of
                            Inl e \<Rightarrow> Inl e
                          | Inr np \<Rightarrow>
                              if np \<noteq> nbr_pos
                              then get_conflict_type this_move other_move nbr_pos rest
                              else enum_of JuncConflict_members entry ''conflict'')))"

text \<open>The nested \<^verbatim>\<open>_to_direction(turn)\<close> with its two groups of turn variants.\<close>

definition left_variants :: "LaneTurn list" where
  "left_variants = [LEFT, SLIGHT_LEFT, SHARP_LEFT, MERGE_TO_LEFT]"

definition right_variants :: "LaneTurn list" where
  "right_variants = [RIGHT, SLIGHT_RIGHT, SHARP_RIGHT, MERGE_TO_RIGHT]"

definition to_direction :: "bool \<Rightarrow> LaneTurn \<Rightarrow> Direction" where
  "to_direction right_lane_drive turn =
     (if turn = THROUGH then THRU
      else if turn = LT_REVERSE then REVERSE
      else if turn \<in> set (if right_lane_drive then right_variants else left_variants) then TURN
      else CROSS)"

text \<open>
  What a call of \<^verbatim>\<open>count_pair_interaction\<close> leaves behind: the exception that ended
  it, if any, the counter it updated in place, and the calls it made to
  \<^verbatim>\<open>get_position\<close> and \<^verbatim>\<open>get_conflict_type\<close>, in order.
\<close>

datatype call = GetPosition | GetConflictType Direction Direction NbrPosition

record interaction =
  raised :: "error option"
  conflict_counter :: "JuncConflict \<Rightarrow> int"
  calls :: "call list"

text \<open>
  The loop over \<^verbatim>\<open>itertools.product(leg1_in_turns, leg2_in_turns)\<close>: one lookup and
  one increment for each pair; an exception of the lookup ends the loop.
\<close>

fun tally ::
  "bool \<Rightarrow> classifier_row list \<Rightarrow> NbrPosition \<Rightarrow> (LaneTurn \<times> LaneTurn) list
     \<Rightarrow> interaction \<Rightarrow> interaction" where
  "tally right_lane_drive classifier nbr_pos [] st = st"
| "tally right_lane_drive classifier nbr_pos ((t1, t2) # ps) st =
     (let this_move = to_direction right_lane_drive t1;
          other_move = to_direction right_lane_drive t2;
          st1 = st\<lparr>calls := calls st @ [GetConflictType this_move other_move nbr_pos]\<rparr>
      in case get_conflict_type this_move other_move nbr_pos classifier of
           Inl e \<Rightarrow> st1\<lparr>raised := Some e\<rparr>
         | Inr conflict \<Rightarrow>
             tally right_lane_drive classifier nbr_pos ps
               (st1\<lparr>conflict_counter :=
                      (conflict_counter st1)(conflict := conflict_counter st1 conflict + 1)\<rparr>))"

definition count_pair_interaction ::
  "'g line_ops \<Rightarrow> road_graph \<Rightarrow> int \<Rightarrow> 'g leg \<Rightarrow> 'g leg \<Rightarrow> (JuncConflict \<Rightarrow> int)
     \<Rightarrow> classifier_row list \<Rightarrow> real \<Rightarrow> bool \<Rightarrow> interaction" where
  "count_pair_interaction ops G node_id leg1 leg2 counter classifier angle_threshold
       right_lane_drive =
     (case (in_turns leg1, in_turns leg2) of
        (Some leg1_in_turns, Some leg2_in_turns) \<Rightarrow>
          (case get_position ops G node_id leg1 leg2 angle_threshold right_lane_drive of
             Inl e \<Rightarrow> \<lparr>raised = Some e, conflict_counter = counter, calls = [GetPosition]\<rparr>
           | Inr nbr_pos \<Rightarrow>
               tally right_lane_drive classifier nbr_pos
                 (List.product leg1_in_turns leg2_in_turns)
                 \<lparr>raised = None, conflict_counter = counter, calls = [GetPosition]\<rparr>)
      | _ \<Rightarrow> \<lparr>raised = None,
               conflict_counter = counter(NO_CONFLICT := counter NO_CONFLICT + 1),
               calls = []\<rparr>)"

text \<open>
  The built-in classifier table, the default of \<^verbatim>\<open>junc_conflict_classifier\<close> in
  \<^verbatim>\<open>app/models.py\<close>.
\<close>

definition classifier_entry :: "string \<Rightarrow> string \<Rightarrow> string \<Rightarrow> string \<Rightarrow> classifier_row" where
  "classifier_entry tm om np c =
     [''this_move'' \<mapsto> tm, ''other_move'' \<mapsto> om, ''nbr_pos'' \<mapsto> np, ''conflict'' \<mapsto> c]"

definition junc_conflict_classifier :: "classifier_row list" where
  "junc_conflict_classifier =
     [classifier_entry ''THRU'' ''THRU'' ''OPP'' ''NO_CONFLICT'',
      classifier_entry ''THRU'' ''THRU'' ''NEAR'' ''INTERSECT'',
      classifier_entry ''THRU'' ''THRU'' ''FAR'' ''INTERSECT'',
      classifier_entry ''THRU'' ''TURN'' ''OPP'' ''NO_CONFLICT'',
      classifier_entry ''THRU'' ''TURN'' ''NEAR'' ''MERGE'',
      classifier_entry ''THRU'' ''TURN'' ''FAR'' ''NO_CONFLICT'',
      classifier_entry ''THRU'' ''CROSS'' ''OPP'' ''INTERSECT'',
      classifier_entry ''THRU'' ''CROSS'' ''NEAR'' ''INTERSECT'',
      classifier_entry ''THRU'' ''CROSS'' ''FAR'' ''MERGE'',
      classifier_entry ''THRU'' ''REVERSE'' ''OPP'' ''MERGE'',
      classifier_entry ''THRU'' ''REVERSE'' ''NEAR'' ''INTERSECT'',
      classifier_entry ''THRU'' ''REVERSE'' ''FAR'' ''INTERSECT'',
      classifier_entry ''TURN'' ''THRU'' ''OPP'' ''NO_CONFLICT'',
      classifier_entry ''TURN'' ''THRU'' ''NEAR'' ''NO_CONFLICT'',
      classifier_entry ''TURN'' ''THRU'' ''FAR'' ''MERGE'',
      classifier_entry ''TURN'' ''TURN'' ''OPP'' ''NO_CONFLICT'',
      classifier_entry ''TURN'' ''TURN'' ''NEAR'' ''NO_CONFLICT'',
      classifier_entry ''TURN'' ''TURN'' ''FAR'' ''NO_CONFLICT'',
      classifier_entry ''TURN'' ''CROSS'' ''OPP'' ''MERGE'',
      classifier_entry ''TURN'' ''CROSS'' ''NEAR'' ''NO_CONFLICT'',
      classifier_entry ''TURN'' ''CROSS'' ''FAR'' ''NO_CONFLICT'',
      classifier_entry ''TURN'' ''REVERSE'' ''OPP'' ''NO_CONFLICT'',
      classifier_entry ''TURN'' ''REVERSE'' ''NEAR'' ''MERGE'',
      classifier_entry ''TURN'' ''REVERSE'' ''FAR'' ''NO_CONFLICT'',
      classifier_entry ''CROSS'' ''THRU'' ''OPP'' ''INTERSECT'',
      classifier_entry ''CROSS'' ''THRU'' ''NEAR'' ''MERGE'',
      classifier_entry ''CROSS'' ''THRU'' ''FAR'' ''INTERSECT'',
      classifier_entry ''CROSS'' ''TURN'' ''OPP'' ''MERGE'',
      classifier_entry ''CROSS'' ''TURN'' ''NEAR'' ''NO_CONFLICT'',
      classifier_entry ''CROSS'' ''TURN'' ''FAR'' ''NO_CONFLICT'',
      classifier_entry ''CROSS'' ''CROSS'' ''OPP'' ''INTERSECT'',
      classifier_entry ''CROSS'' ''CROSS'' ''NEAR'' ''INTERSECT'',
      classifier_entry ''CROSS'' ''CROSS'' ''FAR'' ''INTERSECT'',
      classifier_entry ''CROSS'' ''REVERSE'' ''OPP'' ''INTERSECT'',
      classifier_entry ''CROSS'' ''REVERSE'' ''NEAR'' ''INTERSECT'',
      classifier_entry ''CROSS'' ''REVERSE'' ''FAR'' ''MERGE'',
      classifier_entry ''REVERSE'' ''THRU'' ''OPP'' ''MERGE'',
      classifier_entry ''REVERSE'' ''THRU'' ''NEAR'' ''INTERSECT'',
      classifier_entry ''REVERSE'' ''THRU'' ''FAR'' ''INTERSECT'',
      classifier_entry ''REVERSE'' ''TURN'' ''OPP'' ''NO_CONFLICT'',
      classifier_entry ''REVERSE'' ''TURN'' ''NEAR'' ''NO_CONFLICT'',
      classifier_entry ''REVERSE'' ''TURN'' ''FAR'' ''MERGE'',
      classifier_entry ''REVERSE'' ''CROSS'' ''OPP'' ''INTERSECT'',
      classifier_entry ''REVERSE'' ''CROSS'' ''NEAR'' ''MERGE'',
      classifier_entry ''REVERSE'' ''CROSS'' ''FAR'' ''INTERSECT'',
      classifier_entry ''REVERSE'' ''REVERSE'' ''OPP'' ''INTERSECT'',
      classifier_entry ''REVERSE'' ''REVERSE'' ''NEAR'' ''INTERSECT'',
      classifier_entry ''REVERSE'' ''REVERSE'' ''FAR'' ''INTERSECT'']"

text \<open>
  An instance of the line operations, for examples: a line is the straight segment
  from the origin, where the junction node lies, to its end point. The node projects to
  distance 0, and a segment of length 0 stays at the origin.
\<close>

definition segment_ops :: "point line_ops" where
  "segment_ops =
     \<lparr>project = (\<lambda>g p. 0),
      interpolate = (\<lambda>g d. if sqrt ((fst g)\<^sup>2 + (snd g)\<^sup>2) = 0 then (0, 0)
                            else (d * fst g / sqrt ((fst g)\<^sup>2 + (snd g)\<^sup>2),
                                  d * snd g / sqrt ((fst g)\<^sup>2 + (snd g)\<^sup>2))),
      line_length = (\<lambda>g. sqrt ((fst g)\<^sup>2 + (snd g)\<^sup>2))\<rparr>"

section \<open>Longest compliant network: \<^verbatim>\<open>get_longest_network\<close>\<close>

text \<open>
  The undirected graph that \<^verbatim>\<open>get_longest_network\<close> builds with the graph library:
  the nodes in the order of their insertion and the edges as the pairs that were
  inserted, one for each unordered pair of end points. \<^verbatim>\<open>G.add_edge(u, v)\<close> inserts
  \<open>u\<close>, then \<open>v\<close>, when they are new, and the edge unless the two are joined already.
\<close>

record 'a ugraph =
  nodes :: "'a list"
  edges :: "('a \<times> 'a) list"

definition has_edge :: "('a \<times> 'a) list \<Rightarrow> 'a \<Rightarrow> 'a \<Rightarrow> bool" where
  "has_edge es u v = ((u, v) \<in> set es \<or> (v, u) \<in> set es)"

definition add_node :: "'a list \<Rightarrow> 'a \<Rightarrow> 'a list" where
  "add_node ns u = (if u \<in> set ns then ns else ns @ [u])"

definition add_edge :: "'a ugraph \<Rightarrow> 'a \<times> 'a \<Rightarrow> 'a ugraph" where
  "add_edge G e =
     \<lparr>nodes = add_node (add_node (nodes G) (fst e)) (snd e),
      edges = (if has_edge (edges G) (fst e) (snd e) then edges G else edges G @ [e])\<rparr>"

text \<open>
  The library's search for the connected component of a node: \<open>seen\<close> holds the nodes
  found so far, the queue those whose neighbours are still to be looked at. It ends
  because every round either finds a new end point of an edge or shortens the queue.
\<close>

definition neighbors :: "('a \<times> 'a) list \<Rightarrow> 'a \<Rightarrow> 'a list" where
  "neighbors es v = map snd (filter (\<lambda>e. fst e = v) es) @ map fst (filter (\<lambda>e. snd e = v) es)"

definition unseen_neighbors :: "('a \<times> 'a) list \<Rightarrow> 'a list \<Rightarrow> 'a \<Rightarrow> 'a list" where
  "unseen_neighbors es seen v = filter (\<lambda>w. w \<notin> set seen) (remdups (neighbors es v))"

definition endpoints :: "('a \<times> 'a) list \<Rightarrow> 'a set" where
  "endpoints es = fst ` set es \<union> snd ` set es"

lemma unseen_neighbors_sub: "set (unseen_neighbors es seen v) \<subseteq> endpoints es - set seen"
  by (auto simp: unseen_neighbors_def neighbors_def endpoints_def intro: rev_image_eqI)

function plain_bfs :: "('a \<times> 'a) list \<Rightarrow> 'a list \<Rightarrow> 'a list \<Rightarrow> 'a list" where
  "plain_bfs es seen [] = seen"
| "plain_bfs es seen (v # queue) =
     plain_bfs es (seen @ unseen_neighbors es seen v) (queue @ unseen_neighbors es seen v)"
  by pat_completeness auto
termination
proof (relation "inv_image (less_than <*lex*> less_than)
                   (\<lambda>(es, seen, queue). (card (endpoints es - set seen), length queue))",
       goal_cases)
  case 1
  show ?case by (intro wf_inv_image wf_lex_prod wf_less_than)
next
  case (2 es seen v queue)
  let ?new = "unseen_neighbors es seen v"
  show ?case
  proof (cases "?new = []")
    case True
    then show ?thesis by simp
  next
    case False
    then obtain w where w: "w \<in> set ?new" by (cases ?new) auto
    have fin: "finite (endpoints es - set seen)" by (simp add: endpoints_def)
    have "endpoints es - set (seen @ ?new) \<subset> endpoints es - set seen"
      using w unseen_neighbors_sub[of es seen v] by auto
    then have "card (endpoints es - set (seen @ ?new)) < card (endpoints es - set seen)"
      using fin by (rule psubset_card_mono[rotated])
    then show ?thesis by simp
  qed
qed

text \<open>
  \<^verbatim>\<open>nx.connected_components(G)\<close>: the nodes are visited in the order of their
  insertion, and each node that no earlier component holds starts a new one.
\<close>

fun components_from :: "('a \<times> 'a) list \<Rightarrow> 'a list \<Rightarrow> 'a list \<Rightarrow> 'a list list" where
  "components_from es seen [] = []"
| "components_from es seen (v # vs) =
     (if v \<in> set seen then components_from es seen vs
      else (let c = plain_bfs es [v] [v] in c # components_from es (seen @ c) vs))"

definition connected_components :: "'a ugraph \<Rightarrow> 'a list list" where
  "connected_components G = components_from (edges G) [] (nodes G)"

text \<open>
  The geometries of the geometry library. \<^verbatim>\<open>isinstance(geom, LineString)\<close> holds for
  a line string and for a linear ring, which is a subclass of it; \<open>coords\<close> are the
  coordinates of such a line.
\<close>

datatype geometry = Point point | LineString "point list" | LinearRing "point list"
  | Polygon "point list" | MultiPoint "point list" | MultiLineString "point list list"
  | MultiPolygon "point list list" | GeometryCollection "geometry list"

fun is_LineString :: "geometry \<Rightarrow> bool" where
  "is_LineString (LineString ps) = True"
| "is_LineString (LinearRing ps) = True"
| "is_LineString g = False"

fun coords :: "geometry \<Rightarrow> point list" where
  "coords (LineString ps) = ps"
| "coords (LinearRing ps) = ps"
| "coords g = []"

text \<open>
  The loop \<^verbatim>\<open>for i in range(len(coords) - 1): G.add_edge(coords[i], coords[i + 1])\<close>
  over all lines.
\<close>

definition segments :: "'a list \<Rightarrow> ('a \<times> 'a) list" where
  "segments cs = zip cs (tl cs)"

definition build_graph :: "geometry list \<Rightarrow> point ugraph" where
  "build_graph lines =
     foldl add_edge \<lparr>nodes = [], edges = []\<rparr> (concat (map (\<lambda>line. segments (coords line)) lines))"

text \<open>
  The edges of \<^verbatim>\<open>G.subgraph(c)\<close>, the Euclidean length \<^verbatim>\<open>LineString([u, v]).length\<close>
  of an edge, the key of the source's \<^verbatim>\<open>max\<close> (lengths are real numbers, the sum is
  not rounded), and \<^verbatim>\<open>max(..., key=...)\<close> itself, which keeps the first of several
  greatest elements. The order and the orientation in which the library lists the
  edges of a subgraph are not determined by the source; the model lists them as they
  were inserted.
\<close>

definition subgraph_edges :: "('a \<times> 'a) list \<Rightarrow> 'a list \<Rightarrow> ('a \<times> 'a) list" where
  "subgraph_edges es c = filter (\<lambda>e. fst e \<in> set c \<and> snd e \<in> set c) es"

definition seg_length :: "point \<times> point \<Rightarrow> real" where
  "seg_length e = sqrt ((fst (snd e) - fst (fst e))\<^sup>2 + (snd (snd e) - snd (fst e))\<^sup>2)"

definition total_length :: "(point \<times> point) list \<Rightarrow> point list \<Rightarrow> real" where
  "total_length es c = sum_list (map seg_length (subgraph_edges es c))"

definition max_by :: "('a \<Rightarrow> real) \<Rightarrow> 'a \<Rightarrow> 'a list \<Rightarrow> 'a" where
  "max_by key x xs = foldl (\<lambda>m y. if key y > key m then y else m) x xs"

record feature =
  ftype :: string
  fgeometry :: geometry
  properties :: "(string \<times> pyval) list"

definition get_longest_network :: "geometry list \<Rightarrow> error + feature option" where
  "get_longest_network compliant_geom =
     (let lines = filter is_LineString compliant_geom
      in if lines = [] then Inr None
         else (let G = build_graph lines
               in case connected_components G of
                    [] \<Rightarrow> Inl ValueError
                  | c # cs \<Rightarrow>
                      (let longest_subgraph = max_by (total_length (edges G)) c cs;
                           lines_out = map (\<lambda>e. [fst e, snd e])
                                           (subgraph_edges (edges G) longest_subgraph)
                       in if lines_out = [] then Inr None
                          else Inr (Some \<lparr>ftype = ''Feature'',
                                          fgeometry = MultiLineString lines_out,
                                          properties = []\<rparr>))))"

text \<open>
  Connectivity, for the statements about components: two nodes are adjacent when an
  edge joins them, the component of a node is what is reachable from it, and a set of
  nodes is closed when it holds the whole component of each of its nodes.
\<close>

definition adjacent :: "('a \<times> 'a) list \<Rightarrow> ('a \<times> 'a) set" where
  "adjacent es = {(u, w). has_edge es u w}"

definition component_of :: "('a \<times> 'a) list \<Rightarrow> 'a \<Rightarrow> 'a set" where
  "component_of es v = (adjacent es)\<^sup>* `` {v}"

definition closed_under :: "('a \<times> 'a) list \<Rightarrow> 'a set \<Rightarrow> bool" where
  "closed_under es S = (\<forall>u \<in> S. component_of es u \<subseteq> S)"

section \<open>Properties\<close>

subsection \<open>Width strings\<close>

lemmas str_defs =
  convert_to_meters_def match_feet_inches_def match_num_unit_def float_of_str_def
  parse_decimal_def parse_exponent_def split_sign_def strip_def lower_def lower_char_def
  is_digit_def is_space_def is_lower_az_def is_digit_or_dot_def is_digit_or_us_def
  valid_digitpart_def digitpart_val_def digits_val_def digit_val_def scale10_def
  bare_number_def

lemma meters_12m: "convert_to_meters ''12m'' = Inr (Fin 12)"
  by (simp add: str_defs)

lemma meters_40ft: "convert_to_meters ''40ft'' = Inr (Fin 12.192)"
  by (simp add: str_defs)

lemma meters_16ft_3in:
  "convert_to_meters [CHR ''1'', CHR ''6'', CHR 0x27, CHR ''3'', CHR 0x22] = Inr (Fin 4.953)"
  by (simp add: str_defs)

lemma meters_5mi: "convert_to_meters ''5mi'' = Inr (Fin 8046.72)"
  by (simp add: str_defs)

lemma meters_bare_7: "convert_to_meters ''7'' = Inr (Fin 7)"
  by (simp add: str_defs)

text \<open>
  C4, as stated: the string \<^verbatim>\<open>16'3"\<close> is said to give 4.9784 m within 0.001. The
  source computes 16 feet and 3 inches, \<open>16 * 0.3048 + 3 * 0.0254 = 4.953\<close>, which is one
  inch (0.0254 m) away from the stated value.
\<close>

theorem convert_to_meters_feet_inches_not_4_9784:
  "convert_to_meters [CHR ''1'', CHR ''6'', CHR 0x27, CHR ''3'', CHR 0x22] = Inr (Fin 4.953)
   \<and> \<not> \<bar>4.953 - 4.9784\<bar> \<le> (0.001::real)"
  using meters_16ft_3in by simp

text \<open>
  C4, amended: \<^verbatim>\<open>_convert_to_meters\<close> returns 12.0 for \<^verbatim>\<open>12m\<close>, 12.192 for
  \<^verbatim>\<open>40ft\<close>, 4.953 for \<^verbatim>\<open>16'3"\<close>, 8046.72 for \<^verbatim>\<open>5mi\<close> and 7.0 for the bare
  \<^verbatim>\<open>7\<close> (exact values in real arithmetic, so within every tolerance).
\<close>

theorem convert_to_meters_examples:
  "convert_to_meters ''12m'' = Inr (Fin 12)
   \<and> convert_to_meters ''40ft'' = Inr (Fin 12.192)
   \<and> convert_to_meters [CHR ''1'', CHR ''6'', CHR 0x27, CHR ''3'', CHR 0x22] = Inr (Fin 4.953)
   \<and> convert_to_meters ''5mi'' = Inr (Fin 8046.72)
   \<and> convert_to_meters ''7'' = Inr (Fin 7)"
  using meters_12m meters_40ft meters_16ft_3in meters_5mi meters_bare_7 by simp

text \<open>
  C5: width parsing is meant to return a number for every string. The number group of
  the second pattern, \<^verbatim>\<open>[\d\.]+\<close>, accepts several points, and \<^verbatim>\<open>float\<close> is applied
  to it outside the \<^verbatim>\<open>try\<close>: on \<^verbatim>\<open>1.2.3m\<close> the \<^verbatim>\<open>ValueError\<close> leaves the function.
\<close>

theorem convert_to_meters_raises_on_two_points:
  "convert_to_meters ''1.2.3m'' = Inl ValueError"
  by (simp add: str_defs)

subsection \<open>Edge-level ODD compliance\<close>

lemmas odd_defs = check_single_edge_odd_compliance_def flag_ok_def speed_limit_ok_def
  lane_width_ok_def get_min_numeric_def dict_get_def unwrap_flag_def rule_ok_def
  float_of_int_def py_min_def pf_gt_def py_in_def

lemma dict_get_upd_other: "k \<noteq> k' \<Longrightarrow> dict_get (d(k \<mapsto> v)) k' dflt = dict_get d k' dflt"
  by (simp add: dict_get_def)

lemma get_min_numeric_upd_other:
  "k \<noteq> k' \<Longrightarrow> get_min_numeric (d(k \<mapsto> v)) k' dflt = get_min_numeric d k' dflt"
  by (simp add: get_min_numeric_def dict_get_upd_other)

lemma flag_ok_upd_other: "k \<noteq> k' \<Longrightarrow> flag_ok (d(k \<mapsto> v)) metadata k' = flag_ok d metadata k'"
  by (simp add: flag_ok_def dict_get_upd_other)

lemma flag_ok_scalar_or_list:
  "flag_ok (d(k \<mapsto> VBool b)) metadata k = flag_ok (d(k \<mapsto> VList [VBool b])) metadata k"
  by (simp add: flag_ok_def dict_get_def unwrap_flag_def)

lemma check_single_edge_odd_compliance_cong:
  assumes "dict_get o1 ''highway_type'' (VStr ''ALL'') = dict_get o2 ''highway_type'' (VStr ''ALL'')"
    and "dict_get o1 ''lane_markings'' (VStr ''ALL'') = dict_get o2 ''lane_markings'' (VStr ''ALL'')"
    and "flag_ok o1 metadata ''oneway'' = flag_ok o2 metadata ''oneway''"
    and "flag_ok o1 metadata ''is_major_road'' = flag_ok o2 metadata ''is_major_road''"
    and "get_min_numeric o1 ''speed_limit'' VNone = get_min_numeric o2 ''speed_limit'' VNone"
    and "get_min_numeric o1 ''lane_width'' VNone = get_min_numeric o2 ''lane_width'' VNone"
  shows "check_single_edge_odd_compliance o1 metadata = check_single_edge_odd_compliance o2 metadata"
  unfolding check_single_edge_odd_compliance_def assms by (rule refl)

text \<open>
  C6: for every metadata record and every boolean \<open>b\<close>, the evaluation gives the same
  result when the ODD's \<^verbatim>\<open>oneway\<close> policy is the scalar \<open>b\<close> or the list \<open>[b]\<close>, and
  likewise for \<^verbatim>\<open>is_major_road\<close>, whatever else the ODD holds. The result is the
  returned boolean or the exception that leaves the function.
\<close>

theorem boolean_policy_scalar_or_list:
  "check_single_edge_odd_compliance (odd_spec(''oneway'' \<mapsto> VBool b)) metadata
     = check_single_edge_odd_compliance (odd_spec(''oneway'' \<mapsto> VList [VBool b])) metadata
   \<and> check_single_edge_odd_compliance (odd_spec(''is_major_road'' \<mapsto> VBool b)) metadata
     = check_single_edge_odd_compliance (odd_spec(''is_major_road'' \<mapsto> VList [VBool b])) metadata"
proof
  show "check_single_edge_odd_compliance (odd_spec(''oneway'' \<mapsto> VBool b)) metadata
     = check_single_edge_odd_compliance (odd_spec(''oneway'' \<mapsto> VList [VBool b])) metadata"
    by (rule check_single_edge_odd_compliance_cong)
       (simp_all add: dict_get_upd_other get_min_numeric_upd_other flag_ok_upd_other
          flag_ok_scalar_or_list)
  show "check_single_edge_odd_compliance (odd_spec(''is_major_road'' \<mapsto> VBool b)) metadata
     = check_single_edge_odd_compliance (odd_spec(''is_major_road'' \<mapsto> VList [VBool b])) metadata"
    by (rule check_single_edge_odd_compliance_cong)
       (simp_all add: dict_get_upd_other get_min_numeric_upd_other flag_ok_upd_other
          flag_ok_scalar_or_list)
qed

theorem boolean_policy_scalar_or_list_witness:
  "check_single_edge_odd_compliance [''oneway'' \<mapsto> VBool False] [''oneway'' \<mapsto> VBool False] = Inr False
   \<and> check_single_edge_odd_compliance [''oneway'' \<mapsto> VList [VBool False]] [''oneway'' \<mapsto> VBool False] = Inr False
   \<and> check_single_edge_odd_compliance [''is_major_road'' \<mapsto> VBool False] [''oneway'' \<mapsto> VBool False] = Inr False
   \<and> check_single_edge_odd_compliance [''is_major_road'' \<mapsto> VList [VBool False]] [''oneway'' \<mapsto> VBool False] = Inr False"
  using boolean_policy_scalar_or_list[of Map.empty False "[''oneway'' \<mapsto> VBool False]"]
  by (simp add: odd_defs)


text \<open>
  The two threshold checks. A record of \<^verbatim>\<open>network_primary\<close> always has the keys
  \<^verbatim>\<open>speed_limit\<close> and \<^verbatim>\<open>lane_width\<close>, with the value \<^verbatim>\<open>None\<close> when the road data
  gives none; the fallback of \<^verbatim>\<open>source.get(key, fallback)\<close> is used only when the key
  itself is absent.
\<close>

lemma get_min_numeric_absent:
  "source k = None \<Longrightarrow> get_min_numeric source k VNone = Inr None"
  by (simp add: get_min_numeric_def dict_get_def)

lemma get_min_numeric_None:
  "source k = Some VNone \<Longrightarrow> get_min_numeric source k dflt = Inr None"
  by (simp add: get_min_numeric_def dict_get_def)

lemma get_min_numeric_fallback_999:
  "source k = None \<Longrightarrow> get_min_numeric source k (VInt 999) = Inr (Some (Fin 999))"
  by (simp add: get_min_numeric_def dict_get_def float_of_int_def)

lemma get_min_numeric_fallback_0:
  "source k = None \<Longrightarrow> get_min_numeric source k (VInt 0) = Inr (Some (Fin 0))"
  by (simp add: get_min_numeric_def dict_get_def float_of_int_def)

lemma get_min_numeric_remove_other:
  "k \<noteq> k' \<Longrightarrow> get_min_numeric (d(k := None)) k' dflt = get_min_numeric d k' dflt"
  by (simp add: get_min_numeric_def dict_get_def)

lemma dict_get_remove_other: "k \<noteq> k' \<Longrightarrow> dict_get (d(k := None)) k' dflt = dict_get d k' dflt"
  by (simp add: dict_get_def)

lemma flag_ok_remove_other:
  "k \<noteq> k' \<Longrightarrow> flag_ok (d(k := None)) metadata k' = flag_ok d metadata k'"
  by (simp add: flag_ok_def dict_get_remove_other)

lemma speed_limit_ok_None: "speed_limit_ok None c = True"
  by (simp add: speed_limit_ok_def)

lemma lane_width_ok_None: "lane_width_ok None c = True"
  by (simp add: lane_width_ok_def)

lemma check_single_edge_odd_compliance_resolved:
  assumes "get_min_numeric metadata ''speed_limit'' (VInt 999) = Inr min_speed_limit"
    and "get_min_numeric odd_spec ''speed_limit'' VNone = Inr odd_speed_limit"
    and "get_min_numeric metadata ''lane_width'' (VInt 0) = Inr min_lane_width"
    and "get_min_numeric odd_spec ''lane_width'' VNone = Inr odd_lane_width"
  shows "check_single_edge_odd_compliance odd_spec metadata =
     Inr (rule_ok (dict_get odd_spec ''highway_type'' (VStr ''ALL''))
                  (dict_get metadata ''highway_type'' VNone)
          \<and> rule_ok (dict_get odd_spec ''lane_markings'' (VStr ''ALL''))
                     (dict_get metadata ''lane_markings_forward'' VNone)
          \<and> flag_ok odd_spec metadata ''oneway''
          \<and> flag_ok odd_spec metadata ''is_major_road''
          \<and> speed_limit_ok min_speed_limit odd_speed_limit
          \<and> lane_width_ok min_lane_width odd_lane_width)"
  unfolding check_single_edge_odd_compliance_def assms by simp

lemma unknown_speed_limit_skips_check:
  assumes "get_min_numeric metadata ''speed_limit'' (VInt 999) = Inr None"
    and "get_min_numeric odd_spec ''speed_limit'' VNone = Inr t"
  shows "check_single_edge_odd_compliance odd_spec metadata
           = check_single_edge_odd_compliance (odd_spec(''speed_limit'' := None)) metadata"
proof -
  have r: "get_min_numeric (odd_spec(''speed_limit'' := None)) ''speed_limit'' VNone = Inr None"
    by (simp add: get_min_numeric_absent)
  have l: "get_min_numeric (odd_spec(''speed_limit'' := None)) ''lane_width'' VNone
             = get_min_numeric odd_spec ''lane_width'' VNone"
    by (simp add: get_min_numeric_remove_other)
  have d: "dict_get (odd_spec(''speed_limit'' := None)) ''highway_type'' (VStr ''ALL'')
             = dict_get odd_spec ''highway_type'' (VStr ''ALL'')"
    "dict_get (odd_spec(''speed_limit'' := None)) ''lane_markings'' (VStr ''ALL'')
             = dict_get odd_spec ''lane_markings'' (VStr ''ALL'')"
    by (simp_all add: dict_get_remove_other)
  have f: "flag_ok (odd_spec(''speed_limit'' := None)) metadata ''oneway''
             = flag_ok odd_spec metadata ''oneway''"
    "flag_ok (odd_spec(''speed_limit'' := None)) metadata ''is_major_road''
             = flag_ok odd_spec metadata ''is_major_road''"
    by (simp_all add: flag_ok_remove_other)
  show ?thesis
    unfolding check_single_edge_odd_compliance_def assms r l d f
    by (simp add: speed_limit_ok_None split: sum.splits)
qed

lemma unknown_lane_width_skips_check:
  assumes "get_min_numeric metadata ''lane_width'' (VInt 0) = Inr None"
    and "get_min_numeric odd_spec ''lane_width'' VNone = Inr u"
  shows "check_single_edge_odd_compliance odd_spec metadata
           = check_single_edge_odd_compliance (odd_spec(''lane_width'' := None)) metadata"
proof -
  have r: "get_min_numeric (odd_spec(''lane_width'' := None)) ''lane_width'' VNone = Inr None"
    by (simp add: get_min_numeric_absent)
  have l: "get_min_numeric (odd_spec(''lane_width'' := None)) ''speed_limit'' VNone
             = get_min_numeric odd_spec ''speed_limit'' VNone"
    by (simp add: get_min_numeric_remove_other)
  have d: "dict_get (odd_spec(''lane_width'' := None)) ''highway_type'' (VStr ''ALL'')
             = dict_get odd_spec ''highway_type'' (VStr ''ALL'')"
    "dict_get (odd_spec(''lane_width'' := None)) ''lane_markings'' (VStr ''ALL'')
             = dict_get odd_spec ''lane_markings'' (VStr ''ALL'')"
    by (simp_all add: dict_get_remove_other)
  have f: "flag_ok (odd_spec(''lane_width'' := None)) metadata ''oneway''
             = flag_ok odd_spec metadata ''oneway''"
    "flag_ok (odd_spec(''lane_width'' := None)) metadata ''is_major_road''
             = flag_ok odd_spec metadata ''is_major_road''"
    by (simp_all add: flag_ok_remove_other)
  show ?thesis
    unfolding check_single_edge_odd_compliance_def assms r l d f
    by (simp add: lane_width_ok_None split: sum.splits)
qed

lemma check_True_resolved:
  assumes "check_single_edge_odd_compliance odd_spec metadata = Inr True"
  shows "\<exists>a b c d. get_min_numeric metadata ''speed_limit'' (VInt 999) = Inr a
           \<and> get_min_numeric odd_spec ''speed_limit'' VNone = Inr b
           \<and> get_min_numeric metadata ''lane_width'' (VInt 0) = Inr c
           \<and> get_min_numeric odd_spec ''lane_width'' VNone = Inr d
           \<and> speed_limit_ok a b \<and> lane_width_ok c d"
  using assms
  by (simp add: check_single_edge_odd_compliance_def split: if_splits sum.splits)

lemma absent_speed_limit_not_accepted:
  assumes "metadata ''speed_limit'' = None"
    and "get_min_numeric odd_spec ''speed_limit'' VNone = Inr (Some c)"
    and "pf_lt c (Fin 999)"
  shows "check_single_edge_odd_compliance odd_spec metadata \<noteq> Inr True"
proof
  assume "check_single_edge_odd_compliance odd_spec metadata = Inr True"
  then obtain a b where "get_min_numeric metadata ''speed_limit'' (VInt 999) = Inr a"
    "get_min_numeric odd_spec ''speed_limit'' VNone = Inr b" "speed_limit_ok a b"
    using check_True_resolved by blast
  then have "speed_limit_ok (Some (Fin 999)) (Some c)"
    using assms(1,2) get_min_numeric_fallback_999[of metadata "''speed_limit''"] by simp
  then show False using assms(3) by (simp add: speed_limit_ok_def pf_gt_def)
qed

lemma absent_speed_limit_rejected:
  assumes "metadata ''speed_limit'' = None"
    and "get_min_numeric odd_spec ''speed_limit'' VNone = Inr (Some c)"
    and "pf_lt c (Fin 999)"
    and "get_min_numeric metadata ''lane_width'' (VInt 0) = Inr w"
    and "get_min_numeric odd_spec ''lane_width'' VNone = Inr f"
  shows "check_single_edge_odd_compliance odd_spec metadata = Inr False"
  using assms(3)
    check_single_edge_odd_compliance_resolved[OF
      get_min_numeric_fallback_999[of metadata "''speed_limit''"] assms(2) assms(4) assms(5)]
    assms(1)
  by (simp add: speed_limit_ok_def pf_gt_def)

lemma absent_lane_width_not_accepted:
  assumes "metadata ''lane_width'' = None"
    and "get_min_numeric odd_spec ''lane_width'' VNone = Inr (Some d)"
    and "pf_lt (Fin 0) d"
  shows "check_single_edge_odd_compliance odd_spec metadata \<noteq> Inr True"
proof
  assume "check_single_edge_odd_compliance odd_spec metadata = Inr True"
  then obtain a b where "get_min_numeric metadata ''lane_width'' (VInt 0) = Inr a"
    "get_min_numeric odd_spec ''lane_width'' VNone = Inr b" "lane_width_ok a b"
    using check_True_resolved by blast
  then have "lane_width_ok (Some (Fin 0)) (Some d)"
    using assms(1,2) get_min_numeric_fallback_0[of metadata "''lane_width''"] by simp
  then show False using assms(3) by (simp add: lane_width_ok_def)
qed

lemma absent_lane_width_rejected:
  assumes "metadata ''lane_width'' = None"
    and "get_min_numeric odd_spec ''lane_width'' VNone = Inr (Some d)"
    and "pf_lt (Fin 0) d"
    and "get_min_numeric metadata ''speed_limit'' (VInt 999) = Inr s"
    and "get_min_numeric odd_spec ''speed_limit'' VNone = Inr g"
  shows "check_single_edge_odd_compliance odd_spec metadata = Inr False"
  using assms(3)
    check_single_edge_odd_compliance_resolved[OF assms(4) assms(5)
      get_min_numeric_fallback_0[of metadata "''lane_width''"] assms(2)]
    assms(1)
  by (simp add: lane_width_ok_def)

lemma odd_thresholds:
  "get_min_numeric [''speed_limit'' \<mapsto> VList [VInt 50], ''lane_width'' \<mapsto> VList [VFloat (Fin 3)]] ''speed_limit'' VNone = Inr (Some (Fin 50))"
  "get_min_numeric [''speed_limit'' \<mapsto> VList [VInt 50], ''lane_width'' \<mapsto> VList [VFloat (Fin 3)]] ''lane_width'' VNone = Inr (Some (Fin 3))"
  by (simp_all add: get_min_numeric_def dict_get_def float_of_int_def py_min_def)

lemma record_with_unknown_values:
  "get_min_numeric
       [''highway_type'' \<mapsto> VStr ''residential'', ''speed_limit'' \<mapsto> VNone,
        ''lane_width'' \<mapsto> VNone, ''oneway'' \<mapsto> VBool False,
        ''is_major_road'' \<mapsto> VBool False, ''lane_markings_forward'' \<mapsto> VList []] ''speed_limit'' (VInt 999) = Inr None"
  "get_min_numeric
       [''highway_type'' \<mapsto> VStr ''residential'', ''speed_limit'' \<mapsto> VNone,
        ''lane_width'' \<mapsto> VNone, ''oneway'' \<mapsto> VBool False,
        ''is_major_road'' \<mapsto> VBool False, ''lane_markings_forward'' \<mapsto> VList []] ''lane_width'' (VInt 0) = Inr None"
  by (simp_all add: get_min_numeric_def dict_get_def)

lemma record_with_unknown_values_accepted:
  "check_single_edge_odd_compliance
       [''speed_limit'' \<mapsto> VList [VInt 50], ''lane_width'' \<mapsto> VList [VFloat (Fin 3)]]
       [''highway_type'' \<mapsto> VStr ''residential'', ''speed_limit'' \<mapsto> VNone,
        ''lane_width'' \<mapsto> VNone, ''oneway'' \<mapsto> VBool False,
        ''is_major_road'' \<mapsto> VBool False, ''lane_markings_forward'' \<mapsto> VList []] = Inr True"
  using check_single_edge_odd_compliance_resolved[OF record_with_unknown_values(1)
          odd_thresholds(1) record_with_unknown_values(2) odd_thresholds(2)]
  by (simp add: flag_ok_def speed_limit_ok_def lane_width_ok_def dict_get_def unwrap_flag_def
        rule_ok_def)

lemma record_without_keys:
  "get_min_numeric Map.empty ''speed_limit'' (VInt 999) = Inr (Some (Fin 999))"
  "get_min_numeric Map.empty ''lane_width'' (VInt 0) = Inr (Some (Fin 0))"
  by (simp_all add: get_min_numeric_def dict_get_def float_of_int_def)

lemma record_without_keys_rejected:
  "check_single_edge_odd_compliance [''speed_limit'' \<mapsto> VList [VInt 50], ''lane_width'' \<mapsto> VList [VFloat (Fin 3)]] Map.empty = Inr False"
  using check_single_edge_odd_compliance_resolved[OF record_without_keys(1)
          odd_thresholds(1) record_without_keys(2) odd_thresholds(2)]
  by (simp add: speed_limit_ok_def pf_gt_def)

lemma record_with_fallback_speed_limit:
  "get_min_numeric
       [''highway_type'' \<mapsto> VStr ''residential'', ''speed_limit'' \<mapsto> VInt 999,
        ''lane_width'' \<mapsto> VNone, ''oneway'' \<mapsto> VBool False,
        ''is_major_road'' \<mapsto> VBool False, ''lane_markings_forward'' \<mapsto> VList []] ''speed_limit'' (VInt 999) = Inr (Some (Fin 999))"
  "get_min_numeric
       [''highway_type'' \<mapsto> VStr ''residential'', ''speed_limit'' \<mapsto> VInt 999,
        ''lane_width'' \<mapsto> VNone, ''oneway'' \<mapsto> VBool False,
        ''is_major_road'' \<mapsto> VBool False, ''lane_markings_forward'' \<mapsto> VList []] ''lane_width'' (VInt 0) = Inr None"
  by (simp_all add: get_min_numeric_def dict_get_def float_of_int_def)

lemma record_with_fallback_speed_limit_rejected:
  "check_single_edge_odd_compliance
       [''speed_limit'' \<mapsto> VList [VInt 50], ''lane_width'' \<mapsto> VList [VFloat (Fin 3)]]
       [''highway_type'' \<mapsto> VStr ''residential'', ''speed_limit'' \<mapsto> VInt 999,
        ''lane_width'' \<mapsto> VNone, ''oneway'' \<mapsto> VBool False,
        ''is_major_road'' \<mapsto> VBool False, ''lane_markings_forward'' \<mapsto> VList []] = Inr False"
  using check_single_edge_odd_compliance_resolved[OF record_with_fallback_speed_limit(1)
          odd_thresholds(1) record_with_fallback_speed_limit(2) odd_thresholds(2)]
  by (simp add: speed_limit_ok_def pf_gt_def)

lemma record_with_fallback_lane_width:
  "get_min_numeric
       [''highway_type'' \<mapsto> VStr ''residential'', ''speed_limit'' \<mapsto> VNone,
        ''lane_width'' \<mapsto> VInt 0, ''oneway'' \<mapsto> VBool False,
        ''is_major_road'' \<mapsto> VBool False, ''lane_markings_forward'' \<mapsto> VList []] ''speed_limit'' (VInt 999) = Inr None"
  "get_min_numeric
       [''highway_type'' \<mapsto> VStr ''residential'', ''speed_limit'' \<mapsto> VNone,
        ''lane_width'' \<mapsto> VInt 0, ''oneway'' \<mapsto> VBool False,
        ''is_major_road'' \<mapsto> VBool False, ''lane_markings_forward'' \<mapsto> VList []] ''lane_width'' (VInt 0) = Inr (Some (Fin 0))"
  by (simp_all add: get_min_numeric_def dict_get_def float_of_int_def)

lemma record_with_fallback_lane_width_rejected:
  "check_single_edge_odd_compliance
       [''speed_limit'' \<mapsto> VList [VInt 50], ''lane_width'' \<mapsto> VList [VFloat (Fin 3)]]
       [''highway_type'' \<mapsto> VStr ''residential'', ''speed_limit'' \<mapsto> VNone,
        ''lane_width'' \<mapsto> VInt 0, ''oneway'' \<mapsto> VBool False,
        ''is_major_road'' \<mapsto> VBool False, ''lane_markings_forward'' \<mapsto> VList []] = Inr False"
  using check_single_edge_odd_compliance_resolved[OF record_with_fallback_lane_width(1)
          odd_thresholds(1) record_with_fallback_lane_width(2) odd_thresholds(2)]
  by (simp add: speed_limit_ok_def lane_width_ok_def)

text \<open>
  An integer threshold beyond the range of a double makes \<^verbatim>\<open>float\<close> raise
  \<^verbatim>\<open>OverflowError\<close>, which \<^verbatim>\<open>to_float\<close> does not catch: the evaluation raises.
\<close>

lemma huge_integer_threshold_raises:
  "check_single_edge_odd_compliance
       [''speed_limit'' \<mapsto> VList [VInt 50], ''lane_width'' \<mapsto> VInt (10 ^ 400)] Map.empty
     = Inl OverflowError"
proof -
  have h: "get_min_numeric [''speed_limit'' \<mapsto> VList [VInt 50], ''lane_width'' \<mapsto> VInt (10 ^ 400)]
             ''lane_width'' VNone = Inl OverflowError"
    by (simp add: get_min_numeric_def dict_get_def float_of_int_def)
  have s: "get_min_numeric [''speed_limit'' \<mapsto> VList [VInt 50], ''lane_width'' \<mapsto> VInt (10 ^ 400)]
             ''speed_limit'' VNone = Inr (Some (Fin 50))"
    by (simp add: get_min_numeric_def dict_get_def float_of_int_def py_min_def)
  show ?thesis
    unfolding check_single_edge_odd_compliance_def record_without_keys h s
    by (simp add: flag_ok_def dict_get_def unwrap_flag_def rule_ok_def)
qed

text \<open>
  C2, as stated: a record missing \<^verbatim>\<open>speed_limit\<close> (likewise \<^verbatim>\<open>lane_width\<close>) is
  evaluated with the fallback 999 (likewise 0), and the fallbacks are permissive. For
  a record as stored in \<^verbatim>\<open>network_primary\<close>, with \<^verbatim>\<open>speed_limit\<close> and \<^verbatim>\<open>lane_width\<close>
  \<^verbatim>\<open>None\<close>, no fallback is substituted: both values resolve to \<^verbatim>\<open>None\<close> and the edge
  is accepted under a ceiling of 50 and a floor of 3, whereas the same record holding
  the value 999 for the speed limit, or 0 for the lane width, is rejected.
\<close>

theorem unknown_values_not_replaced_by_fallbacks:
  "get_min_numeric
       [''highway_type'' \<mapsto> VStr ''residential'', ''speed_limit'' \<mapsto> VNone,
        ''lane_width'' \<mapsto> VNone, ''oneway'' \<mapsto> VBool False,
        ''is_major_road'' \<mapsto> VBool False, ''lane_markings_forward'' \<mapsto> VList []] ''speed_limit'' (VInt 999) = Inr None
   \<and> get_min_numeric
       [''highway_type'' \<mapsto> VStr ''residential'', ''speed_limit'' \<mapsto> VNone,
        ''lane_width'' \<mapsto> VNone, ''oneway'' \<mapsto> VBool False,
        ''is_major_road'' \<mapsto> VBool False, ''lane_markings_forward'' \<mapsto> VList []] ''lane_width'' (VInt 0) = Inr None
   \<and> check_single_edge_odd_compliance
       [''speed_limit'' \<mapsto> VList [VInt 50], ''lane_width'' \<mapsto> VList [VFloat (Fin 3)]]
       [''highway_type'' \<mapsto> VStr ''residential'', ''speed_limit'' \<mapsto> VNone,
        ''lane_width'' \<mapsto> VNone, ''oneway'' \<mapsto> VBool False,
        ''is_major_road'' \<mapsto> VBool False, ''lane_markings_forward'' \<mapsto> VList []] = Inr True
   \<and> check_single_edge_odd_compliance
       [''speed_limit'' \<mapsto> VList [VInt 50], ''lane_width'' \<mapsto> VList [VFloat (Fin 3)]]
       [''highway_type'' \<mapsto> VStr ''residential'', ''speed_limit'' \<mapsto> VInt 999,
        ''lane_width'' \<mapsto> VNone, ''oneway'' \<mapsto> VBool False,
        ''is_major_road'' \<mapsto> VBool False, ''lane_markings_forward'' \<mapsto> VList []] = Inr False
   \<and> check_single_edge_odd_compliance
       [''speed_limit'' \<mapsto> VList [VInt 50], ''lane_width'' \<mapsto> VList [VFloat (Fin 3)]]
       [''highway_type'' \<mapsto> VStr ''residential'', ''speed_limit'' \<mapsto> VNone,
        ''lane_width'' \<mapsto> VInt 0, ''oneway'' \<mapsto> VBool False,
        ''is_major_road'' \<mapsto> VBool False, ''lane_markings_forward'' \<mapsto> VList []] = Inr False"
  by (intro conjI)
     (fact record_with_unknown_values record_with_unknown_values_accepted
           record_with_fallback_speed_limit_rejected record_with_fallback_lane_width_rejected)+

text \<open>
  C2, amended: a record whose \<^verbatim>\<open>speed_limit\<close> (likewise \<^verbatim>\<open>lane_width\<close>) is \<^verbatim>\<open>None\<close>
  resolves to no value, without a fallback; whenever the record's value resolves to
  no value and the ODD's threshold resolves without an exception, the evaluation is
  the one of the ODD without that threshold, so the check is skipped. The fallbacks
  999 and 0 are substituted only when the key is absent from the record, and they
  are worst-case values: under a ceiling below 999 (a floor above 0) such an edge is
  never accepted, and it is rejected whenever the other attribute's values resolve
  without an exception.
\<close>

theorem missing_attribute_evaluation:
  "(metadata ''speed_limit'' = Some VNone \<longrightarrow>
      get_min_numeric metadata ''speed_limit'' (VInt 999) = Inr None)
   \<and> (metadata ''lane_width'' = Some VNone \<longrightarrow>
      get_min_numeric metadata ''lane_width'' (VInt 0) = Inr None)
   \<and> (get_min_numeric metadata ''speed_limit'' (VInt 999) = Inr None
       \<and> get_min_numeric odd_spec ''speed_limit'' VNone = Inr t \<longrightarrow>
      check_single_edge_odd_compliance odd_spec metadata
        = check_single_edge_odd_compliance (odd_spec(''speed_limit'' := None)) metadata)
   \<and> (get_min_numeric metadata ''lane_width'' (VInt 0) = Inr None
       \<and> get_min_numeric odd_spec ''lane_width'' VNone = Inr u \<longrightarrow>
      check_single_edge_odd_compliance odd_spec metadata
        = check_single_edge_odd_compliance (odd_spec(''lane_width'' := None)) metadata)
   \<and> (metadata ''speed_limit'' = None \<longrightarrow>
      get_min_numeric metadata ''speed_limit'' (VInt 999) = Inr (Some (Fin 999)))
   \<and> (metadata ''lane_width'' = None \<longrightarrow>
      get_min_numeric metadata ''lane_width'' (VInt 0) = Inr (Some (Fin 0)))
   \<and> (metadata ''speed_limit'' = None
       \<and> get_min_numeric odd_spec ''speed_limit'' VNone = Inr (Some c) \<and> pf_lt c (Fin 999) \<longrightarrow>
      check_single_edge_odd_compliance odd_spec metadata \<noteq> Inr True
      \<and> (get_min_numeric metadata ''lane_width'' (VInt 0) = Inr w
          \<and> get_min_numeric odd_spec ''lane_width'' VNone = Inr f \<longrightarrow>
         check_single_edge_odd_compliance odd_spec metadata = Inr False))
   \<and> (metadata ''lane_width'' = None
       \<and> get_min_numeric odd_spec ''lane_width'' VNone = Inr (Some d) \<and> pf_lt (Fin 0) d \<longrightarrow>
      check_single_edge_odd_compliance odd_spec metadata \<noteq> Inr True
      \<and> (get_min_numeric metadata ''speed_limit'' (VInt 999) = Inr s
          \<and> get_min_numeric odd_spec ''speed_limit'' VNone = Inr g \<longrightarrow>
         check_single_edge_odd_compliance odd_spec metadata = Inr False))"
  using get_min_numeric_None[of metadata "''speed_limit''" "VInt 999"]
        get_min_numeric_None[of metadata "''lane_width''" "VInt 0"]
        unknown_speed_limit_skips_check[of metadata odd_spec t]
        unknown_lane_width_skips_check[of metadata odd_spec u]
        get_min_numeric_fallback_999[of metadata "''speed_limit''"]
        get_min_numeric_fallback_0[of metadata "''lane_width''"]
        absent_speed_limit_not_accepted[of metadata odd_spec c]
        absent_speed_limit_rejected[of metadata odd_spec c w f]
        absent_lane_width_not_accepted[of metadata odd_spec d]
        absent_lane_width_rejected[of metadata odd_spec d s g]
  by blast


theorem missing_attribute_evaluation_witness:
  "get_min_numeric
       [''highway_type'' \<mapsto> VStr ''residential'', ''speed_limit'' \<mapsto> VNone,
        ''lane_width'' \<mapsto> VNone, ''oneway'' \<mapsto> VBool False,
        ''is_major_road'' \<mapsto> VBool False, ''lane_markings_forward'' \<mapsto> VList []] ''speed_limit'' (VInt 999) = Inr None
   \<and> get_min_numeric
       [''highway_type'' \<mapsto> VStr ''residential'', ''speed_limit'' \<mapsto> VNone,
        ''lane_width'' \<mapsto> VNone, ''oneway'' \<mapsto> VBool False,
        ''is_major_road'' \<mapsto> VBool False, ''lane_markings_forward'' \<mapsto> VList []] ''lane_width'' (VInt 0) = Inr None
   \<and> check_single_edge_odd_compliance
       [''speed_limit'' \<mapsto> VList [VInt 50], ''lane_width'' \<mapsto> VList [VFloat (Fin 3)]]
       [''highway_type'' \<mapsto> VStr ''residential'', ''speed_limit'' \<mapsto> VNone,
        ''lane_width'' \<mapsto> VNone, ''oneway'' \<mapsto> VBool False,
        ''is_major_road'' \<mapsto> VBool False, ''lane_markings_forward'' \<mapsto> VList []]
     = check_single_edge_odd_compliance
       [''lane_width'' \<mapsto> VList [VFloat (Fin 3)]]
       [''highway_type'' \<mapsto> VStr ''residential'', ''speed_limit'' \<mapsto> VNone,
        ''lane_width'' \<mapsto> VNone, ''oneway'' \<mapsto> VBool False,
        ''is_major_road'' \<mapsto> VBool False, ''lane_markings_forward'' \<mapsto> VList []]
   \<and> check_single_edge_odd_compliance
       [''speed_limit'' \<mapsto> VList [VInt 50], ''lane_width'' \<mapsto> VList [VFloat (Fin 3)]]
       [''highway_type'' \<mapsto> VStr ''residential'', ''speed_limit'' \<mapsto> VNone,
        ''lane_width'' \<mapsto> VNone, ''oneway'' \<mapsto> VBool False,
        ''is_major_road'' \<mapsto> VBool False, ''lane_markings_forward'' \<mapsto> VList []]
     = check_single_edge_odd_compliance
       [''speed_limit'' \<mapsto> VList [VInt 50]]
       [''highway_type'' \<mapsto> VStr ''residential'', ''speed_limit'' \<mapsto> VNone,
        ''lane_width'' \<mapsto> VNone, ''oneway'' \<mapsto> VBool False,
        ''is_major_road'' \<mapsto> VBool False, ''lane_markings_forward'' \<mapsto> VList []]
   \<and> get_min_numeric Map.empty ''speed_limit'' (VInt 999) = Inr (Some (Fin 999))
   \<and> get_min_numeric Map.empty ''lane_width'' (VInt 0) = Inr (Some (Fin 0))
   \<and> check_single_edge_odd_compliance
       [''speed_limit'' \<mapsto> VList [VInt 50], ''lane_width'' \<mapsto> VList [VFloat (Fin 3)]] Map.empty \<noteq> Inr True
   \<and> check_single_edge_odd_compliance
       [''speed_limit'' \<mapsto> VList [VInt 50], ''lane_width'' \<mapsto> VList [VFloat (Fin 3)]] Map.empty = Inr False"
proof -
  note a = missing_attribute_evaluation[where
      metadata = "[''highway_type'' \<mapsto> VStr ''residential'', ''speed_limit'' \<mapsto> VNone,
        ''lane_width'' \<mapsto> VNone, ''oneway'' \<mapsto> VBool False,
        ''is_major_road'' \<mapsto> VBool False, ''lane_markings_forward'' \<mapsto> VList []]"
      and odd_spec = "[''speed_limit'' \<mapsto> VList [VInt 50], ''lane_width'' \<mapsto> VList [VFloat (Fin 3)]]"
      and t = "Some (Fin 50)" and u = "Some (Fin 3)"]
  note b = missing_attribute_evaluation[where
      metadata = Map.empty
      and odd_spec = "[''speed_limit'' \<mapsto> VList [VInt 50], ''lane_width'' \<mapsto> VList [VFloat (Fin 3)]]"
      and c = "Fin 50" and d = "Fin 3" and w = "Some (Fin 0)" and f = "Some (Fin 3)"
      and s = "Some (Fin 999)" and g = "Some (Fin 50)"]
  have o1: "[''speed_limit'' \<mapsto> VList [VInt 50], ''lane_width'' \<mapsto> VList [VFloat (Fin 3)]](''speed_limit'' := None) = [''lane_width'' \<mapsto> VList [VFloat (Fin 3)]]"
    by (rule ext) simp
  have o2: "[''speed_limit'' \<mapsto> VList [VInt 50], ''lane_width'' \<mapsto> VList [VFloat (Fin 3)]](''lane_width'' := None) = [''speed_limit'' \<mapsto> VList [VInt 50]]"
    by (rule ext) simp
  have c1: "get_min_numeric
       [''highway_type'' \<mapsto> VStr ''residential'', ''speed_limit'' \<mapsto> VNone,
        ''lane_width'' \<mapsto> VNone, ''oneway'' \<mapsto> VBool False,
        ''is_major_road'' \<mapsto> VBool False, ''lane_markings_forward'' \<mapsto> VList []] ''speed_limit'' (VInt 999) = Inr None"
    using a[THEN conjunct1] by simp
  have c2: "get_min_numeric
       [''highway_type'' \<mapsto> VStr ''residential'', ''speed_limit'' \<mapsto> VNone,
        ''lane_width'' \<mapsto> VNone, ''oneway'' \<mapsto> VBool False,
        ''is_major_road'' \<mapsto> VBool False, ''lane_markings_forward'' \<mapsto> VList []] ''lane_width'' (VInt 0) = Inr None"
    using a[THEN conjunct2, THEN conjunct1] by simp
  have c3: "check_single_edge_odd_compliance
       [''speed_limit'' \<mapsto> VList [VInt 50], ''lane_width'' \<mapsto> VList [VFloat (Fin 3)]]
       [''highway_type'' \<mapsto> VStr ''residential'', ''speed_limit'' \<mapsto> VNone,
        ''lane_width'' \<mapsto> VNone, ''oneway'' \<mapsto> VBool False,
        ''is_major_road'' \<mapsto> VBool False, ''lane_markings_forward'' \<mapsto> VList []]
     = check_single_edge_odd_compliance
       [''lane_width'' \<mapsto> VList [VFloat (Fin 3)]]
       [''highway_type'' \<mapsto> VStr ''residential'', ''speed_limit'' \<mapsto> VNone,
        ''lane_width'' \<mapsto> VNone, ''oneway'' \<mapsto> VBool False,
        ''is_major_road'' \<mapsto> VBool False, ''lane_markings_forward'' \<mapsto> VList []]"
    using a[THEN conjunct2, THEN conjunct2, THEN conjunct1, THEN mp, OF conjI, OF c1 odd_thresholds(1)]
    unfolding o1 .
  have c4: "check_single_edge_odd_compliance
       [''speed_limit'' \<mapsto> VList [VInt 50], ''lane_width'' \<mapsto> VList [VFloat (Fin 3)]]
       [''highway_type'' \<mapsto> VStr ''residential'', ''speed_limit'' \<mapsto> VNone,
        ''lane_width'' \<mapsto> VNone, ''oneway'' \<mapsto> VBool False,
        ''is_major_road'' \<mapsto> VBool False, ''lane_markings_forward'' \<mapsto> VList []]
     = check_single_edge_odd_compliance
       [''speed_limit'' \<mapsto> VList [VInt 50]]
       [''highway_type'' \<mapsto> VStr ''residential'', ''speed_limit'' \<mapsto> VNone,
        ''lane_width'' \<mapsto> VNone, ''oneway'' \<mapsto> VBool False,
        ''is_major_road'' \<mapsto> VBool False, ''lane_markings_forward'' \<mapsto> VList []]"
    using a[THEN conjunct2, THEN conjunct2, THEN conjunct2, THEN conjunct1, THEN mp, OF conjI,
            OF c2 odd_thresholds(2)]
    unfolding o2 .
  have c5: "get_min_numeric Map.empty ''speed_limit'' (VInt 999) = Inr (Some (Fin 999))"
    using b[THEN conjunct2, THEN conjunct2, THEN conjunct2, THEN conjunct2, THEN conjunct1]
    by simp
  have c6: "get_min_numeric Map.empty ''lane_width'' (VInt 0) = Inr (Some (Fin 0))"
    using b[THEN conjunct2, THEN conjunct2, THEN conjunct2, THEN conjunct2, THEN conjunct2,
            THEN conjunct1]
    by simp
  have lt: "pf_lt (Fin 50) (Fin 999)"
    by simp
  have e: "(Map.empty :: pydict) ''speed_limit'' = None"
    by simp
  note c7 = b[THEN conjunct2, THEN conjunct2, THEN conjunct2, THEN conjunct2, THEN conjunct2,
            THEN conjunct2, THEN conjunct1, THEN mp, OF conjI, OF e conjI, OF odd_thresholds(1) lt]
  note c8 = c7[THEN conjunct2, THEN mp, OF conjI, OF c6 odd_thresholds(2)]
  show ?thesis
    by (intro conjI) (fact c1 c2 c3 c4 c5 c6 c7[THEN conjunct1] c8)+
qed

subsection \<open>Junction type of a three-way node\<close>

lemma arccos_inv_sqrt2: "arccos (1 / sqrt 2) = pi / 4"
proof -
  have "cos (pi / 4) = 1 / sqrt 2"
    by (simp add: cos_45 real_div_sqrt)
  moreover have "0 \<le> pi / 4" "pi / 4 \<le> pi" by simp_all
  ultimately show ?thesis using arccos_cos[of "pi / 4"] by simp
qed

lemma inv_sqrt2_bounds: "0 < 1 / sqrt 2" "1 / sqrt 2 \<le> 1"
  by simp_all

lemma arccos_neg_inv_sqrt2: "arccos (- (1 / sqrt 2)) = 3 * pi / 4"
proof -
  have "arccos (- (1 / sqrt 2)) = pi - arccos (1 / sqrt 2)"
    using inv_sqrt2_bounds by (intro arccos_minus) linarith+
  then show ?thesis by (simp add: arccos_inv_sqrt2)
qed

lemma angle_135: "calculate_angle (1, 0) (0, 0) (1, 1) = Fin 135"
proof -
  have "max (- 1) (min 1 (- (1 / sqrt 2))) = - (1 / sqrt 2)"
    using inv_sqrt2_bounds unfolding max_def min_def by (simp only: split: if_splits) linarith
  then show ?thesis
    by (simp add: calculate_angle_def Let_def arccos_neg_inv_sqrt2)
qed

lemma angle_45: "calculate_angle (1, 1) (0, 0) (- 1, 0) = Fin 45"
proof -
  have "max (- 1) (min 1 (1 / sqrt 2)) = 1 / sqrt 2"
    using inv_sqrt2_bounds unfolding max_def min_def by (simp only: split: if_splits) linarith
  then show ?thesis
    by (simp add: calculate_angle_def Let_def arccos_inv_sqrt2)
qed

lemma angle_0: "calculate_angle (- 1, 0) (0, 0) (1, 0) = Fin 0"
  by (simp add: calculate_angle_def Let_def)

lemma upt3: "[0 ..< 3] = [0, 1, 2]"
  by (simp add: upt_rec)

lemma classify_deg3:
  assumes "und_neighbors G n = [a, b, c]"
  shows "classify_node_other G n thr =
     (let p0 = node_xy G n; pa = node_xy G a; pb = node_xy G b; pc = node_xy G c;
          m = py_max (calculate_angle pa p0 pb) [calculate_angle pb p0 pc, calculate_angle pc p0 pa]
      in if pf_le m (Fin thr) then Some T_JUNCTION else Some Y_JUNCTION)"
  using assms by (simp add: classify_node_other_def Let_def upt3)
text \<open>
  C1: a three-way node is said to be a \<^verbatim>\<open>T_JUNCTION\<close> when the largest of its three
  angles exceeds the threshold and a \<^verbatim>\<open>Y_JUNCTION\<close> otherwise, as the docstring of
  \<^verbatim>\<open>classify_node_other\<close> and the description of the threshold in \<^verbatim>\<open>models.py\<close>
  say too. The source tests \<^verbatim>\<open>max(angles) <= angle_threshold\<close> for \<^verbatim>\<open>T_JUNCTION\<close>.
  At the node \<open>(0, 0)\<close> with the neighbours \<open>(1, 0)\<close>, \<open>(1, 1)\<close> and \<open>(-1, 0)\<close> the
  computed angles are 135, 45 and 0 degrees (the legs are 45, 135 and 180 degrees
  apart); the largest exceeds the threshold 110 and the result is \<^verbatim>\<open>Y_JUNCTION\<close>.
\<close>

theorem classify_node_other_large_angle_gives_Y:
  "calculate_angle (1, 0) (0, 0) (1, 1) = Fin 135
   \<and> calculate_angle (1, 1) (0, 0) (- 1, 0) = Fin 45
   \<and> calculate_angle (- 1, 0) (0, 0) (1, 0) = Fin 0
   \<and> classify_node_other
        \<lparr>node_xy = (\<lambda>n. if n = 1 then (1, 0) else if n = 2 then (1, 1)
                             else if n = 3 then (- 1, 0) else (0, 0)),
            und_neighbors = (\<lambda>n. if n = 0 then [1, 2, 3] else [0])\<rparr> 0 110
      = Some Y_JUNCTION"
  by (simp add: classify_node_other_def Let_def upt3 angle_135 angle_45 angle_0
        py_max_def pf_gt_def pf_le_def)

subsection \<open>Lane count of an edge\<close>

lemmas lane_defs = parse_lane_data_def turn_lanes_def side_of_def dict_get_def lane_turns_def
  LaneTurn_members_def py_str_def lane_count_def caught_def upper_def upper_char_def strip_def
  is_space_def int_of_str_def split_sign_def valid_digitpart_def digitpart_val_def
  digits_val_def digit_val_def is_digit_or_us_def is_digit_def

lemma lane_count_parse:
  assumes "turn_lanes (dict_get data (''turn:lanes:'' @ side_of data) (VStr [])) = Inr lanes"
  shows "lane_count (parse_lane_data repr data) =
     (let tag_raw = dict_get data (''turn:lanes:'' @ side_of data) (VStr [])
      in case dict_get data (''lanes:'' @ side_of data) VNone of
           VList ls \<Rightarrow>
             (if truthy tag_raw
              then (case py_len tag_raw of Inl e \<Rightarrow> Inl e | Inr n \<Rightarrow> Inr (n, False))
              else (case ls of
                      [] \<Rightarrow> Inr (1, True)
                    | x # xs \<Rightarrow>
                        (case py_int x of
                           Inr n \<Rightarrow> Inr (n, True)
                         | Inl e \<Rightarrow> if caught e then Inr (1, True) else Inl e)))
         | VNone \<Rightarrow> Inr (1, True)
         | v \<Rightarrow>
             (case py_int v of
                Inr n \<Rightarrow> Inr (n, False)
              | Inl e \<Rightarrow> if caught e then Inr (1, True) else Inl e))"
  using assms
  by (simp add: parse_lane_data_def lane_count_def Let_def split: pyval.splits sum.splits list.splits)

text \<open>
  C3, as stated: a turn-lanes tag, when present, decides the lane count by its number
  of lane segments. An edge with the tag \<^verbatim>\<open>left|through|right\<close> (three segments) and
  no lanes tag gets the count 1, flagged as an estimate; an edge with the tag
  \<^verbatim>\<open>left|through\<close> (two segments) and the lanes tag \<^verbatim>\<open>3\<close> gets the count 3.
\<close>

theorem turn_tag_without_lanes_tag_counts_one:
  "parse_lane_data (\<lambda>v. []) [''turn:lanes:forward'' \<mapsto> VStr ''left|through|right'']
     = Inr ({LEFT, THROUGH, RIGHT}, 1, True)
   \<and> length (split_on (CHR ''|'') ''left|through|right'') = 3
   \<and> parse_lane_data (\<lambda>v. []) [''turn:lanes:forward'' \<mapsto> VStr ''left|through'',
                                    ''lanes:forward'' \<mapsto> VStr ''3'']
     = Inr ({LEFT, THROUGH}, 3, False)
   \<and> length (split_on (CHR ''|'') ''left|through'') = 2"
  by (simp add: lane_defs)

text \<open>
  C3, amended: the lane count is resolved by the directional lanes tag. When that tag
  is absent the count is 1, flagged as an estimate. When it is a list, a turn-lanes tag
  given as a non-empty list yields its number of elements, not flagged, and without a
  turn-lanes tag the first element of the lanes list is used, flagged as an estimate
  (1 when the list is empty or the element is no integer). When it is a single value,
  that value as an integer is used, not flagged (1, flagged, when it is no integer).
  In the first and the last case a turn-lanes tag does not change the count. (The
  hypothesis excludes a turn-lanes tag that is neither a string nor a list.)
\<close>

theorem lane_count_by_lanes_tag:
  assumes "tag_raw = dict_get data (''turn:lanes:'' @ side_of data) (VStr [])"
    and "lanes_val = dict_get data (''lanes:'' @ side_of data) VNone"
    and "turn_lanes tag_raw = Inr lanes"
  shows "(lanes_val = VNone \<longrightarrow> lane_count (parse_lane_data repr data) = Inr (1, True))
    \<and> (\<forall>ls ts. lanes_val = VList ls \<and> tag_raw = VList ts \<and> ts \<noteq> [] \<longrightarrow>
          lane_count (parse_lane_data repr data) = Inr (int (length ts), False))
    \<and> (\<forall>ls. lanes_val = VList ls \<and> \<not> truthy tag_raw \<longrightarrow>
          lane_count (parse_lane_data repr data) =
            (case ls of
               [] \<Rightarrow> Inr (1, True)
             | x # xs \<Rightarrow>
                 (case py_int x of
                    Inr n \<Rightarrow> Inr (n, True)
                  | Inl e \<Rightarrow> if caught e then Inr (1, True) else Inl e)))
    \<and> (lanes_val \<noteq> VNone \<and> (\<forall>ls. lanes_val \<noteq> VList ls) \<longrightarrow>
          lane_count (parse_lane_data repr data) =
            (case py_int lanes_val of
               Inr n \<Rightarrow> Inr (n, False)
             | Inl e \<Rightarrow> if caught e then Inr (1, True) else Inl e))"
  using assms lane_count_parse[of data lanes repr]
  by (auto simp: Let_def split: pyval.splits)


theorem lane_count_by_lanes_tag_witness:
  "lane_count (parse_lane_data (\<lambda>v. []) [''turn:lanes:forward'' \<mapsto> VStr ''left|through''])
     = Inr (1, True)
   \<and> lane_count (parse_lane_data (\<lambda>v. [])
        [''turn:lanes:forward'' \<mapsto> VList [VStr ''left'', VStr ''through''],
         ''lanes:forward'' \<mapsto> VList [VStr ''3'', VStr ''1'']])
     = Inr (2, False)
   \<and> lane_count (parse_lane_data (\<lambda>v. []) [''lanes:forward'' \<mapsto> VList [VStr ''3'', VStr ''1'']])
     = Inr (3, True)
   \<and> lane_count (parse_lane_data (\<lambda>v. [])
        [''turn:lanes:forward'' \<mapsto> VStr ''left|through'', ''lanes:forward'' \<mapsto> VStr ''3''])
     = Inr (3, False)"
  using lane_count_by_lanes_tag[where repr = "\<lambda>v. []"
          and data = "[''turn:lanes:forward'' \<mapsto> VStr ''left|through'']"
          and tag_raw = "VStr ''left|through''" and lanes_val = VNone
          and lanes = "[VStr ''left'', VStr ''through'']"]
        lane_count_by_lanes_tag[where repr = "\<lambda>v. []"
          and data = "[''turn:lanes:forward'' \<mapsto> VList [VStr ''left'', VStr ''through''],
                       ''lanes:forward'' \<mapsto> VList [VStr ''3'', VStr ''1'']]"
          and tag_raw = "VList [VStr ''left'', VStr ''through'']"
          and lanes_val = "VList [VStr ''3'', VStr ''1'']"
          and lanes = "[VStr ''left'', VStr ''through'']"]
        lane_count_by_lanes_tag[where repr = "\<lambda>v. []"
          and data = "[''lanes:forward'' \<mapsto> VList [VStr ''3'', VStr ''1'']]"
          and tag_raw = "VStr []" and lanes_val = "VList [VStr ''3'', VStr ''1'']"
          and lanes = "[]"]
        lane_count_by_lanes_tag[where repr = "\<lambda>v. []"
          and data = "[''turn:lanes:forward'' \<mapsto> VStr ''left|through'', ''lanes:forward'' \<mapsto> VStr ''3'']"
          and tag_raw = "VStr ''left|through''" and lanes_val = "VStr ''3''"
          and lanes = "[VStr ''left'', VStr ''through'']"]
  by (simp add: lane_defs)

subsection \<open>Neighbour position with a degenerate direction vector\<close>

lemma position_of_zero_vector:
  "v1 = (0, 0) \<or> v2 = (0, 0) \<Longrightarrow> position_of_vectors v1 v2 angle_threshold right_lane_drive = FAR"
  by (auto simp: position_of_vectors_def Let_def)

lemma dir_vector_unit_x:
  "get_dir_vector segment_ops (0, 0) \<lparr>nbr_id = 1, nbr_coord = (1, 0), in_turns = t, geom = Some (1, 0)\<rparr>
     = Inr (1 / 1000, 0)"
  by (simp add: get_dir_vector_def segment_ops_def Let_def)

lemma dir_vector_unit_y:
  "get_dir_vector segment_ops (0, 0) \<lparr>nbr_id = 2, nbr_coord = (0, 1), in_turns = t, geom = Some (0, 1)\<rparr>
     = Inr (0, 1 / 1000)"
  by (simp add: get_dir_vector_def segment_ops_def Let_def)

lemma dir_vector_degenerate:
  "get_dir_vector segment_ops (0, 0) \<lparr>nbr_id = 3, nbr_coord = (0, 0), in_turns = t, geom = Some (0, 0)\<rparr>
     = Inr (0, 0)"
  by (simp add: get_dir_vector_def segment_ops_def Let_def)

text \<open>
  C9: for every pair of legs at a node whose two direction vectors have been obtained,
  if one of the vectors has length zero then \<^verbatim>\<open>get_position\<close> returns \<^verbatim>\<open>FAR\<close> and
  raises nothing, for every threshold and either driving side.
\<close>

theorem get_position_zero_vector_is_FAR:
  assumes "get_dir_vector ops (node_xy G node_id) leg1 = Inr v1"
    and "get_dir_vector ops (node_xy G node_id) leg2 = Inr v2"
    and "v1 = (0, 0) \<or> v2 = (0, 0)"
  shows "get_position ops G node_id leg1 leg2 angle_threshold right_lane_drive = Inr FAR"
  using assms position_of_zero_vector[of v1 v2 angle_threshold right_lane_drive]
  by (simp add: get_position_def Let_def)

theorem get_position_zero_vector_is_FAR_witness:
  "get_dir_vector segment_ops (0, 0)
       \<lparr>nbr_id = 1, nbr_coord = (1, 0), in_turns = None, geom = Some (1, 0)\<rparr> = Inr (1 / 1000, 0)
   \<and> get_dir_vector segment_ops (0, 0)
       \<lparr>nbr_id = 3, nbr_coord = (0, 0), in_turns = None, geom = Some (0, 0)\<rparr> = Inr (0, 0)
   \<and> get_position segment_ops \<lparr>node_xy = (\<lambda>n. (0, 0)), und_neighbors = (\<lambda>n. [])\<rparr> 0
       \<lparr>nbr_id = 1, nbr_coord = (1, 0), in_turns = None, geom = Some (1, 0)\<rparr>
       \<lparr>nbr_id = 3, nbr_coord = (0, 0), in_turns = None, geom = Some (0, 0)\<rparr> 30 True = Inr FAR"
  using get_position_zero_vector_is_FAR[where ops = segment_ops
          and G = "\<lparr>node_xy = (\<lambda>n. (0, 0)), und_neighbors = (\<lambda>n. [])\<rparr>" and node_id = 0
          and ?leg1.0 = "\<lparr>nbr_id = 1, nbr_coord = (1, 0), in_turns = None, geom = Some (1, 0)\<rparr>"
          and ?leg2.0 = "\<lparr>nbr_id = 3, nbr_coord = (0, 0), in_turns = None, geom = Some (0, 0)\<rparr>"
          and ?v1.0 = "(1 / 1000, 0)" and ?v2.0 = "(0, 0)" and angle_threshold = 30
          and right_lane_drive = True]
        dir_vector_unit_x[of None] dir_vector_degenerate[of None]
  by simp

subsection \<open>Tallies of a pair of legs\<close>

lemma tally_all_found:
  assumes "\<forall>p \<in> set ps. get_conflict_type (to_direction rld (fst p)) (to_direction rld (snd p))
                           pos cls = Inr (f p)"
  shows "tally rld cls pos ps st =
     st\<lparr>conflict_counter := (\<lambda>c. conflict_counter st c + int (length (filter (\<lambda>p. f p = c) ps))),
        calls := calls st @ map (\<lambda>p. GetConflictType (to_direction rld (fst p))
                                         (to_direction rld (snd p)) pos) ps\<rparr>"
  using assms
proof (induction ps arbitrary: st)
  case Nil
  then show ?case by simp
next
  case (Cons p ps)
  obtain t1 t2 where p: "p = (t1, t2)" by (cases p)
  have found: "get_conflict_type (to_direction rld t1) (to_direction rld t2) pos cls = Inr (f (t1, t2))"
    using Cons.prems p by simp
  have rest: "\<forall>q \<in> set ps. get_conflict_type (to_direction rld (fst q)) (to_direction rld (snd q))
                           pos cls = Inr (f q)"
    using Cons.prems by simp
  show ?case
    unfolding p
    by (simp add: Let_def found Cons.IH[OF rest] fun_eq_iff)
qed

lemma position_perpendicular: "position_of_vectors (1 / 1000, 0) (0, 1 / 1000) 30 True = FAR"
  by (simp add: position_of_vectors_def Let_def real_sqrt_divide)

lemma position_example:
  "get_position segment_ops
         \<lparr>node_xy = (\<lambda>n. if n = 1 then (1, 0) else if n = 2 then (0, 1) else (0, 0)),
          und_neighbors = (\<lambda>n. if n = 0 then [1, 2, 3] else [0])\<rparr> 0
         \<lparr>nbr_id = 1, nbr_coord = (1, 0), in_turns = Some [THROUGH, LEFT], geom = Some (1, 0)\<rparr>
         \<lparr>nbr_id = 2, nbr_coord = (0, 1), in_turns = Some [THROUGH, RIGHT], geom = Some (0, 1)\<rparr> 30 True = Inr FAR"
  by (simp add: get_position_def Let_def dir_vector_unit_x dir_vector_unit_y position_perpendicular)

lemmas classifier_defs = junc_conflict_classifier_def classifier_entry_def enum_of_def
  Direction_members_def NbrPosition_members_def JuncConflict_members_def

lemma lookup_thru_thru_far: "get_conflict_type THRU THRU FAR junc_conflict_classifier = Inr INTERSECT"
  by (simp add: classifier_defs)

lemma lookup_thru_turn_far: "get_conflict_type THRU TURN FAR junc_conflict_classifier = Inr NO_CONFLICT"
  by (simp add: classifier_defs)

lemma lookup_cross_thru_far: "get_conflict_type CROSS THRU FAR junc_conflict_classifier = Inr INTERSECT"
  by (simp add: classifier_defs)

lemma lookup_cross_turn_far: "get_conflict_type CROSS TURN FAR junc_conflict_classifier = Inr NO_CONFLICT"
  by (simp add: classifier_defs)

lemma directions_example:
  "to_direction True THROUGH = THRU" "to_direction True LEFT = CROSS" "to_direction True RIGHT = TURN"
  by (simp_all add: to_direction_def right_variants_def)

text \<open>
  C7: when the movement set of either leg is \<^verbatim>\<open>None\<close>, \<^verbatim>\<open>count_pair_interaction\<close>
  adds one to the \<^verbatim>\<open>NO_CONFLICT\<close> count and calls neither \<^verbatim>\<open>get_position\<close> nor
  \<^verbatim>\<open>get_conflict_type\<close>. Otherwise, when the position is obtained and the classifier
  answers every lookup, it calls \<^verbatim>\<open>get_position\<close> once, then looks up each pair of the
  product of the two movement sets once, in order, and adds one to the count of the
  conflict found for that pair; the pairs are as many as the product of the two sizes,
  and for sets (lists without repetition) they are the Cartesian product, each once.
\<close>

theorem count_pair_interaction_tallies:
  "(in_turns leg1 = None \<or> in_turns leg2 = None \<longrightarrow>
      count_pair_interaction ops G node_id leg1 leg2 counter cls thr rld =
        \<lparr>raised = None,
         conflict_counter = counter(NO_CONFLICT := counter NO_CONFLICT + 1),
         calls = []\<rparr>)
   \<and> (in_turns leg1 = Some A \<and> in_turns leg2 = Some B
       \<and> get_position ops G node_id leg1 leg2 thr rld = Inr pos
       \<and> (\<forall>p \<in> set (List.product A B).
             get_conflict_type (to_direction rld (fst p)) (to_direction rld (snd p)) pos cls
               = Inr (f p)) \<longrightarrow>
      count_pair_interaction ops G node_id leg1 leg2 counter cls thr rld =
        \<lparr>raised = None,
         conflict_counter =
           (\<lambda>c. counter c + int (length (filter (\<lambda>p. f p = c) (List.product A B)))),
         calls = GetPosition #
                 map (\<lambda>p. GetConflictType (to_direction rld (fst p))
                                           (to_direction rld (snd p)) pos)
                     (List.product A B)\<rparr>
      \<and> length (List.product A B) = length A * length B
      \<and> (distinct A \<and> distinct B \<longrightarrow>
           distinct (List.product A B) \<and> set (List.product A B) = set A \<times> set B))"
proof (intro conjI impI)
  assume "in_turns leg1 = None \<or> in_turns leg2 = None"
  then show "count_pair_interaction ops G node_id leg1 leg2 counter cls thr rld =
        \<lparr>raised = None,
         conflict_counter = counter(NO_CONFLICT := counter NO_CONFLICT + 1),
         calls = []\<rparr>"
    by (auto simp: count_pair_interaction_def split: option.splits)
next
  assume h: "in_turns leg1 = Some A \<and> in_turns leg2 = Some B
       \<and> get_position ops G node_id leg1 leg2 thr rld = Inr pos
       \<and> (\<forall>p \<in> set (List.product A B).
             get_conflict_type (to_direction rld (fst p)) (to_direction rld (snd p)) pos cls
               = Inr (f p))"
  then have all: "\<forall>p \<in> set (List.product A B).
             get_conflict_type (to_direction rld (fst p)) (to_direction rld (snd p)) pos cls
               = Inr (f p)" by blast
  show "count_pair_interaction ops G node_id leg1 leg2 counter cls thr rld =
        \<lparr>raised = None,
         conflict_counter =
           (\<lambda>c. counter c + int (length (filter (\<lambda>p. f p = c) (List.product A B)))),
         calls = GetPosition #
                 map (\<lambda>p. GetConflictType (to_direction rld (fst p))
                                           (to_direction rld (snd p)) pos)
                     (List.product A B)\<rparr>"
    using h by (simp add: count_pair_interaction_def tally_all_found[OF all])
  show "length (List.product A B) = length A * length B"
    by (rule length_product)
next
  assume "distinct A \<and> distinct B"
  then show "distinct (List.product A B)" by (simp add: distinct_product)
next
  show "set (List.product A B) = set A \<times> set B" by simp
qed


theorem count_pair_interaction_tallies_witness:
  "count_pair_interaction segment_ops
         \<lparr>node_xy = (\<lambda>n. if n = 1 then (1, 0) else if n = 2 then (0, 1) else (0, 0)),
          und_neighbors = (\<lambda>n. if n = 0 then [1, 2, 3] else [0])\<rparr> 0
         \<lparr>nbr_id = 1, nbr_coord = (1, 0), in_turns = Some [THROUGH, LEFT], geom = Some (1, 0)\<rparr>
         \<lparr>nbr_id = 3, nbr_coord = (0, 0), in_turns = None, geom = Some (0, 0)\<rparr>
         (\<lambda>c. 0) junc_conflict_classifier 30 True
     = \<lparr>raised = None, conflict_counter = (\<lambda>c. 0)(NO_CONFLICT := 1), calls = []\<rparr>
   \<and> raised (count_pair_interaction segment_ops
         \<lparr>node_xy = (\<lambda>n. if n = 1 then (1, 0) else if n = 2 then (0, 1) else (0, 0)),
          und_neighbors = (\<lambda>n. if n = 0 then [1, 2, 3] else [0])\<rparr> 0
         \<lparr>nbr_id = 1, nbr_coord = (1, 0), in_turns = Some [THROUGH, LEFT], geom = Some (1, 0)\<rparr>
         \<lparr>nbr_id = 2, nbr_coord = (0, 1), in_turns = Some [THROUGH, RIGHT], geom = Some (0, 1)\<rparr>
         (\<lambda>c. 0) junc_conflict_classifier 30 True) = None
   \<and> calls (count_pair_interaction segment_ops
         \<lparr>node_xy = (\<lambda>n. if n = 1 then (1, 0) else if n = 2 then (0, 1) else (0, 0)),
          und_neighbors = (\<lambda>n. if n = 0 then [1, 2, 3] else [0])\<rparr> 0
         \<lparr>nbr_id = 1, nbr_coord = (1, 0), in_turns = Some [THROUGH, LEFT], geom = Some (1, 0)\<rparr>
         \<lparr>nbr_id = 2, nbr_coord = (0, 1), in_turns = Some [THROUGH, RIGHT], geom = Some (0, 1)\<rparr>
         (\<lambda>c. 0) junc_conflict_classifier 30 True)
       = [GetPosition, GetConflictType THRU THRU FAR, GetConflictType THRU TURN FAR,
          GetConflictType CROSS THRU FAR, GetConflictType CROSS TURN FAR]
   \<and> conflict_counter (count_pair_interaction segment_ops
         \<lparr>node_xy = (\<lambda>n. if n = 1 then (1, 0) else if n = 2 then (0, 1) else (0, 0)),
          und_neighbors = (\<lambda>n. if n = 0 then [1, 2, 3] else [0])\<rparr> 0
         \<lparr>nbr_id = 1, nbr_coord = (1, 0), in_turns = Some [THROUGH, LEFT], geom = Some (1, 0)\<rparr>
         \<lparr>nbr_id = 2, nbr_coord = (0, 1), in_turns = Some [THROUGH, RIGHT], geom = Some (0, 1)\<rparr>
         (\<lambda>c. 0) junc_conflict_classifier 30 True) INTERSECT = 2
   \<and> conflict_counter (count_pair_interaction segment_ops
         \<lparr>node_xy = (\<lambda>n. if n = 1 then (1, 0) else if n = 2 then (0, 1) else (0, 0)),
          und_neighbors = (\<lambda>n. if n = 0 then [1, 2, 3] else [0])\<rparr> 0
         \<lparr>nbr_id = 1, nbr_coord = (1, 0), in_turns = Some [THROUGH, LEFT], geom = Some (1, 0)\<rparr>
         \<lparr>nbr_id = 2, nbr_coord = (0, 1), in_turns = Some [THROUGH, RIGHT], geom = Some (0, 1)\<rparr>
         (\<lambda>c. 0) junc_conflict_classifier 30 True) MERGE = 0
   \<and> conflict_counter (count_pair_interaction segment_ops
         \<lparr>node_xy = (\<lambda>n. if n = 1 then (1, 0) else if n = 2 then (0, 1) else (0, 0)),
          und_neighbors = (\<lambda>n. if n = 0 then [1, 2, 3] else [0])\<rparr> 0
         \<lparr>nbr_id = 1, nbr_coord = (1, 0), in_turns = Some [THROUGH, LEFT], geom = Some (1, 0)\<rparr>
         \<lparr>nbr_id = 2, nbr_coord = (0, 1), in_turns = Some [THROUGH, RIGHT], geom = Some (0, 1)\<rparr>
         (\<lambda>c. 0) junc_conflict_classifier 30 True) NO_CONFLICT = 2"
  using count_pair_interaction_tallies[where ops = segment_ops
          and G = "\<lparr>node_xy = (\<lambda>n. if n = 1 then (1, 0) else if n = 2 then (0, 1) else (0, 0)),
          und_neighbors = (\<lambda>n. if n = 0 then [1, 2, 3] else [0])\<rparr>" and node_id = 0
          and ?leg1.0 = "\<lparr>nbr_id = 1, nbr_coord = (1, 0), in_turns = Some [THROUGH, LEFT], geom = Some (1, 0)\<rparr>"
          and ?leg2.0 = "\<lparr>nbr_id = 3, nbr_coord = (0, 0), in_turns = None, geom = Some (0, 0)\<rparr>"
          and counter = "\<lambda>c. 0" and cls = junc_conflict_classifier and thr = 30 and rld = True]
        count_pair_interaction_tallies[where ops = segment_ops
          and G = "\<lparr>node_xy = (\<lambda>n. if n = 1 then (1, 0) else if n = 2 then (0, 1) else (0, 0)),
          und_neighbors = (\<lambda>n. if n = 0 then [1, 2, 3] else [0])\<rparr>" and node_id = 0
          and ?leg1.0 = "\<lparr>nbr_id = 1, nbr_coord = (1, 0), in_turns = Some [THROUGH, LEFT], geom = Some (1, 0)\<rparr>"
          and ?leg2.0 = "\<lparr>nbr_id = 2, nbr_coord = (0, 1), in_turns = Some [THROUGH, RIGHT], geom = Some (0, 1)\<rparr>"
          and counter = "\<lambda>c. 0" and cls = junc_conflict_classifier and thr = 30 and rld = True
          and A = "[THROUGH, LEFT]" and B = "[THROUGH, RIGHT]" and pos = FAR
          and f = "\<lambda>p. if snd p = THROUGH then INTERSECT else NO_CONFLICT"]
        position_example lookup_thru_thru_far lookup_thru_turn_far lookup_cross_thru_far
        lookup_cross_turn_far directions_example
  by simp

subsection \<open>Connected components of the segment graph\<close>

lemma neighbors_adjacent: "w \<in> set (neighbors es v) \<longleftrightarrow> (v, w) \<in> adjacent es"
  by (auto simp: neighbors_def adjacent_def has_edge_def intro: rev_image_eqI)

lemma unseen_neighbors_iff:
  "w \<in> set (unseen_neighbors es seen v) \<longleftrightarrow> (v, w) \<in> adjacent es \<and> w \<notin> set seen"
  by (auto simp: unseen_neighbors_def neighbors_adjacent)

lemma plain_bfs_seen_subset: "set seen \<subseteq> set (plain_bfs es seen queue)"
  by (induction es seen queue rule: plain_bfs.induct) auto

lemma plain_bfs_closed:
  assumes "set queue \<subseteq> set seen"
    and "\<forall>u \<in> set seen - set queue. \<forall>w. (u, w) \<in> adjacent es \<longrightarrow> w \<in> set seen"
  shows "\<forall>u \<in> set (plain_bfs es seen queue). \<forall>w. (u, w) \<in> adjacent es
            \<longrightarrow> w \<in> set (plain_bfs es seen queue)"
  using assms
proof (induction es seen queue rule: plain_bfs.induct)
  case (1 es seen)
  then show ?case by simp
next
  case (2 es seen v queue)
  let ?new = "unseen_neighbors es seen v"
  have a: "set (queue @ ?new) \<subseteq> set (seen @ ?new)"
    using "2.prems"(1) by auto
  have b: "\<forall>u \<in> set (seen @ ?new) - set (queue @ ?new).
             \<forall>w. (u, w) \<in> adjacent es \<longrightarrow> w \<in> set (seen @ ?new)"
  proof (intro ballI allI impI)
    fix u w
    assume u: "u \<in> set (seen @ ?new) - set (queue @ ?new)" and adj: "(u, w) \<in> adjacent es"
    show "w \<in> set (seen @ ?new)"
    proof (cases "u = v")
      case True
      then show ?thesis using adj unseen_neighbors_iff[of w es seen v] by auto
    next
      case False
      then have "u \<in> set seen - set (v # queue)" using u by auto
      then have "w \<in> set seen" using "2.prems"(2) adj by blast
      then show ?thesis by simp
    qed
  qed
  show ?case using "2.IH"[OF a b] by simp
qed

lemma plain_bfs_reachable:
  assumes "set queue \<subseteq> set seen"
  shows "\<forall>w \<in> set (plain_bfs es seen queue). \<exists>u \<in> set seen. (u, w) \<in> (adjacent es)\<^sup>*"
  using assms
proof (induction es seen queue rule: plain_bfs.induct)
  case (1 es seen)
  then show ?case by auto
next
  case (2 es seen v queue)
  let ?new = "unseen_neighbors es seen v"
  have sub: "set (queue @ ?new) \<subseteq> set (seen @ ?new)"
    using "2.prems" by auto
  have v: "v \<in> set seen" using "2.prems" by simp
  show ?case
  proof
    fix w
    assume "w \<in> set (plain_bfs es seen (v # queue))"
    then have "w \<in> set (plain_bfs es (seen @ ?new) (queue @ ?new))" by simp
    then obtain u where u: "u \<in> set (seen @ ?new)" "(u, w) \<in> (adjacent es)\<^sup>*"
      using "2.IH"[OF sub] by blast
    show "\<exists>u \<in> set seen. (u, w) \<in> (adjacent es)\<^sup>*"
    proof (cases "u \<in> set seen")
      case True
      then show ?thesis using u(2) by blast
    next
      case False
      then have "u \<in> set ?new" using u(1) by auto
      then have "(v, u) \<in> adjacent es" by (simp add: unseen_neighbors_iff)
      then have "(v, w) \<in> (adjacent es)\<^sup>*" using u(2) by (rule converse_rtrancl_into_rtrancl)
      then show ?thesis using v by blast
    qed
  qed
qed

lemma plain_bfs_component: "set (plain_bfs es [v] [v]) = component_of es v"
proof
  show "set (plain_bfs es [v] [v]) \<subseteq> component_of es v"
    using plain_bfs_reachable[of "[v]" "[v]" es] by (auto simp: component_of_def)
next
  let ?C = "set (plain_bfs es [v] [v])"
  have closed: "\<forall>u \<in> ?C. \<forall>w. (u, w) \<in> adjacent es \<longrightarrow> w \<in> ?C"
    by (rule plain_bfs_closed) simp_all
  have v: "v \<in> ?C" using plain_bfs_seen_subset[of "[v]" es "[v]"] by simp
  have "w \<in> ?C" if "(v, w) \<in> (adjacent es)\<^sup>*" for w
    using that
  proof (induction rule: rtrancl_induct)
    case base
    then show ?case by (rule v)
  next
    case (step y z)
    then show ?case using closed by blast
  qed
  then show "component_of es v \<subseteq> ?C" by (auto simp: component_of_def)
qed

declare plain_bfs.simps [simp del]

lemma adjacent_sym: "(u, w) \<in> adjacent es \<Longrightarrow> (w, u) \<in> adjacent es"
  by (auto simp: adjacent_def has_edge_def)

lemma adjacent_rtrancl_sym:
  "(u, w) \<in> (adjacent es)\<^sup>* \<Longrightarrow> (w, u) \<in> (adjacent es)\<^sup>*"
proof (induction rule: rtrancl_induct)
  case base
  then show ?case by simp
next
  case (step y z)
  then have "(z, y) \<in> adjacent es" by (simp add: adjacent_sym)
  then show ?case using step.IH by (rule converse_rtrancl_into_rtrancl)
qed

lemma component_of_self: "v \<in> component_of es v"
  by (simp add: component_of_def)

lemma component_of_eq:
  assumes "w \<in> component_of es v"
  shows "component_of es w = component_of es v"
proof -
  have vw: "(v, w) \<in> (adjacent es)\<^sup>*" using assms by (simp add: component_of_def)
  have wv: "(w, v) \<in> (adjacent es)\<^sup>*" using vw by (rule adjacent_rtrancl_sym)
  show ?thesis
    unfolding component_of_def using vw wv by (auto intro: rtrancl_trans)
qed

lemma component_of_endpoints: "component_of es v \<subseteq> insert v (endpoints es)"
proof
  fix w assume "w \<in> component_of es v"
  then have "(v, w) \<in> (adjacent es)\<^sup>*" by (simp add: component_of_def)
  then show "w \<in> insert v (endpoints es)"
  proof (cases rule: rtranclE)
    case base
    then show ?thesis by simp
  next
    case (step y)
    then have "w \<in> endpoints es"
      by (auto simp: adjacent_def has_edge_def endpoints_def intro: rev_image_eqI)
    then show ?thesis by simp
  qed
qed

lemma closed_under_empty: "closed_under es {}"
  by (simp add: closed_under_def)

lemma closed_under_add:
  assumes "closed_under es S"
  shows "closed_under es (S \<union> component_of es v)"
  unfolding closed_under_def
proof
  fix u assume u: "u \<in> S \<union> component_of es v"
  show "component_of es u \<subseteq> S \<union> component_of es v"
  proof (cases "u \<in> S")
    case True
    then have "component_of es u \<subseteq> S" using assms unfolding closed_under_def by blast
    then show ?thesis by blast
  next
    case False
    then have "u \<in> component_of es v" using u by blast
    then have "component_of es u = component_of es v" by (rule component_of_eq)
    then show ?thesis by blast
  qed
qed

lemma component_disjoint_closed:
  assumes "closed_under es S" and "v \<notin> S"
  shows "component_of es v \<inter> S = {}"
proof (rule ccontr)
  assume "component_of es v \<inter> S \<noteq> {}"
  then obtain w where w: "w \<in> component_of es v" "w \<in> S" by blast
  have "component_of es w = component_of es v" using w(1) by (rule component_of_eq)
  then have "v \<in> component_of es w" using component_of_self[of v es] by simp
  moreover have "component_of es w \<subseteq> S" using assms(1) w(2) unfolding closed_under_def by blast
  ultimately show False using assms(2) by blast
qed

lemma components_from_props:
  assumes "closed_under es (set seen)"
  shows "\<exists>starts. distinct starts \<and> set starts \<subseteq> set vs - set seen
           \<and> components_from es seen vs = map (\<lambda>v. plain_bfs es [v] [v]) starts
           \<and> (\<forall>i j. i < j \<and> j < length starts \<longrightarrow>
                  component_of es (starts ! i) \<inter> component_of es (starts ! j) = {})
           \<and> set vs \<subseteq> set seen \<union> (\<Union>v \<in> set starts. component_of es v)"
  using assms
proof (induction vs arbitrary: seen)
  case Nil
  show ?case by (rule exI[of _ "[]"]) simp
next
  case (Cons v vs)
  show ?case
  proof (cases "v \<in> set seen")
    case True
    obtain starts where s: "distinct starts" "set starts \<subseteq> set vs - set seen"
      "components_from es seen vs = map (\<lambda>v. plain_bfs es [v] [v]) starts"
      "\<forall>i j. i < j \<and> j < length starts \<longrightarrow>
          component_of es (starts ! i) \<inter> component_of es (starts ! j) = {}"
      "set vs \<subseteq> set seen \<union> (\<Union>v \<in> set starts. component_of es v)"
      using Cons.IH[OF Cons.prems] by blast
    have "set starts \<subseteq> set (v # vs) - set seen" using s(2) by auto
    moreover have "components_from es seen (v # vs) = map (\<lambda>v. plain_bfs es [v] [v]) starts"
      using s(3) True by simp
    moreover have "set (v # vs) \<subseteq> set seen \<union> (\<Union>v \<in> set starts. component_of es v)"
      using s(5) True by auto
    ultimately show ?thesis using s(1) s(4) by blast
  next
    case False
    let ?c = "plain_bfs es [v] [v]"
    have c: "set ?c = component_of es v" by (rule plain_bfs_component)
    have cl: "closed_under es (set (seen @ ?c))"
      using closed_under_add[OF Cons.prems, of v] by (simp add: c)
    obtain starts where s: "distinct starts" "set starts \<subseteq> set vs - set (seen @ ?c)"
      "components_from es (seen @ ?c) vs = map (\<lambda>v. plain_bfs es [v] [v]) starts"
      "\<forall>i j. i < j \<and> j < length starts \<longrightarrow>
          component_of es (starts ! i) \<inter> component_of es (starts ! j) = {}"
      "set vs \<subseteq> set (seen @ ?c) \<union> (\<Union>v \<in> set starts. component_of es v)"
      using Cons.IH[OF cl] by blast
    have vnot: "v \<notin> set starts" using s(2) c component_of_self[of v es] by auto
    have disj_v: "component_of es v \<inter> component_of es w = {}" if "w \<in> set starts" for w
    proof -
      have "w \<notin> component_of es v" using that s(2) c by auto
      then have "v \<notin> component_of es w"
        using component_of_eq[of v es w] component_of_self[of w es] by blast
      show ?thesis
      proof (rule ccontr)
        assume "component_of es v \<inter> component_of es w \<noteq> {}"
        then obtain x where x: "x \<in> component_of es v" "x \<in> component_of es w" by blast
        have "component_of es v = component_of es w"
          using component_of_eq[OF x(1)] component_of_eq[OF x(2)] by simp
        then show False using \<open>w \<notin> component_of es v\<close> component_of_self[of w es] by simp
      qed
    qed
    have pair: "\<forall>i j. i < j \<and> j < length (v # starts) \<longrightarrow>
          component_of es ((v # starts) ! i) \<inter> component_of es ((v # starts) ! j) = {}"
    proof (intro allI impI)
      fix i j assume ij: "i < j \<and> j < length (v # starts)"
      show "component_of es ((v # starts) ! i) \<inter> component_of es ((v # starts) ! j) = {}"
      proof (cases i)
        case 0
        then obtain j' where j': "j = Suc j'" using ij by (cases j) auto
        then have "starts ! j' \<in> set starts" using ij by simp
        then show ?thesis using 0 j' disj_v by simp
      next
        case (Suc i')
        then obtain j' where j': "j = Suc j'" using ij by (cases j) auto
        then have "i' < j' \<and> j' < length starts" using ij Suc by simp
        then show ?thesis using s(4) Suc j' by simp
      qed
    qed
    have d: "distinct (v # starts)" using s(1) vnot by simp
    have sub: "set (v # starts) \<subseteq> set (v # vs) - set seen" using s(2) False by auto
    have eq: "components_from es seen (v # vs) = map (\<lambda>v. plain_bfs es [v] [v]) (v # starts)"
      using s(3) False by (simp add: Let_def)
    have cov: "set (v # vs) \<subseteq> set seen \<union> (\<Union>w \<in> set (v # starts). component_of es w)"
      using s(5) c component_of_self[of v es] by auto
    show ?thesis using d sub eq pair cov by blast
  qed
qed

lemma max_by_Cons: "max_by key x (y # ys) = max_by key (if key y > key x then y else x) ys"
  by (simp add: max_by_def)

lemma max_by_first_max:
  "\<exists>pre post. x # xs = pre @ max_by key x xs # post
      \<and> (\<forall>y \<in> set pre. key y < key (max_by key x xs))
      \<and> (\<forall>y \<in> set post. key y \<le> key (max_by key x xs))"
proof (induction xs arbitrary: x)
  case Nil
  have "[x] = [] @ max_by key x [] # []" by (simp add: max_by_def)
  then show ?case by (metis empty_iff list.set(1))
next
  case (Cons y ys)
  show ?case
  proof (cases "key y > key x")
    case True
    let ?r = "max_by key y ys"
    have r: "max_by key x (y # ys) = ?r" using True by (simp add: max_by_Cons)
    obtain pre post where p: "y # ys = pre @ ?r # post"
      "\<forall>z \<in> set pre. key z < key ?r" "\<forall>z \<in> set post. key z \<le> key ?r"
      using Cons.IH[of y] by blast
    have "y \<in> set (pre @ ?r # post)" using p(1) by (metis list.set_intros(1))
    then have "key y \<le> key ?r" using p(2,3) by auto
    then have x: "key x < key ?r" using True by simp
    have "x # y # ys = (x # pre) @ ?r # post" using p(1) by simp
    moreover have "\<forall>z \<in> set (x # pre). key z < key ?r" using x p(2) by simp
    ultimately show ?thesis unfolding r using p(3) by blast
  next
    case False
    let ?r = "max_by key x ys"
    have r: "max_by key x (y # ys) = ?r" using False by (simp add: max_by_Cons)
    obtain pre post where p: "x # ys = pre @ ?r # post"
      "\<forall>z \<in> set pre. key z < key ?r" "\<forall>z \<in> set post. key z \<le> key ?r"
      using Cons.IH[of x] by blast
    show ?thesis
    proof (cases pre)
      case Nil
      then have xr: "?r = x" "post = ys" using p(1) by auto
      have "x # y # ys = [] @ ?r # (y # ys)" using xr by simp
      moreover have "\<forall>z \<in> set (y # ys). key z \<le> key ?r" using p(3) xr False by auto
      ultimately show ?thesis unfolding r by (metis empty_iff list.set(1))
    next
      case (Cons a pre')
      then have a: "a = x" "ys = pre' @ ?r # post" using p(1) by auto
      have x: "key x < key ?r" using p(2) Cons a(1) by simp
      have "x # y # ys = (x # y # pre') @ ?r # post" using a(2) by simp
      moreover have "\<forall>z \<in> set (x # y # pre'). key z < key ?r"
        using x False p(2) Cons by auto
      ultimately show ?thesis unfolding r using p(3) by blast
    qed
  qed
qed

lemma add_node_set: "set (add_node ns u) = insert u (set ns)"
  by (auto simp: add_node_def)

lemma has_edge_add_edge:
  "has_edge (edges (add_edge G e)) u w \<longleftrightarrow>
     has_edge (edges G) u w \<or> (u, w) = e \<or> (w, u) = e"
  by (cases e) (auto simp: add_edge_def has_edge_def)

lemma nodes_add_edge: "set (nodes (add_edge G e)) = set (nodes G) \<union> {fst e, snd e}"
  by (auto simp: add_edge_def add_node_set)

lemma has_edge_foldl:
  "has_edge (edges (foldl add_edge G segs)) u w \<longleftrightarrow>
     has_edge (edges G) u w \<or> (u, w) \<in> set segs \<or> (w, u) \<in> set segs"
  by (induction segs arbitrary: G) (auto simp: has_edge_add_edge)

lemma nodes_foldl:
  "set (nodes (foldl add_edge G segs)) = set (nodes G) \<union> fst ` set segs \<union> snd ` set segs"
  by (induction segs arbitrary: G) (auto simp: nodes_add_edge)

lemma endpoints_has_edge: "endpoints es = {u. \<exists>w. has_edge es u w}"
  by (auto simp: endpoints_def has_edge_def intro: rev_image_eqI)

lemma fst_snd_image: "fst ` S \<union> snd ` S = {u. \<exists>w. (u, w) \<in> S \<or> (w, u) \<in> S}"
  by force

lemma has_edge_Nil: "has_edge [] u w = False"
  by (simp add: has_edge_def)

lemma build_graph_has_edge:
  "has_edge (edges (build_graph lines)) u w \<longleftrightarrow>
     (\<exists>line \<in> set lines. (u, w) \<in> set (segments (coords line))
                         \<or> (w, u) \<in> set (segments (coords line)))"
  by (auto simp: build_graph_def has_edge_foldl has_edge_Nil)

lemma build_graph_nodes: "set (nodes (build_graph lines)) = endpoints (edges (build_graph lines))"
proof -
  let ?segs = "concat (map (\<lambda>line. segments (coords line)) lines)"
  have n: "set (nodes (build_graph lines)) = fst ` set ?segs \<union> snd ` set ?segs"
    unfolding build_graph_def by (simp add: nodes_foldl)
  have e: "endpoints (edges (build_graph lines)) = {u. \<exists>w. (u, w) \<in> set ?segs \<or> (w, u) \<in> set ?segs}"
    unfolding endpoints_has_edge build_graph_def by (simp add: has_edge_foldl has_edge_Nil)
  have "fst ` set ?segs \<union> snd ` set ?segs = {u. \<exists>w. (u, w) \<in> set ?segs \<or> (w, u) \<in> set ?segs}"
    by (rule fst_snd_image)
  then show ?thesis using n e by simp
qed

lemma connected_components_starts:
  "\<exists>starts. distinct starts \<and> set starts \<subseteq> set (nodes G)
     \<and> connected_components G = map (\<lambda>v. plain_bfs (edges G) [v] [v]) starts
     \<and> (\<forall>i j. i < j \<and> j < length starts \<longrightarrow>
            component_of (edges G) (starts ! i) \<inter> component_of (edges G) (starts ! j) = {})
     \<and> set (nodes G) \<subseteq> (\<Union>v \<in> set starts. component_of (edges G) v)"
proof -
  have "closed_under (edges G) (set [])" by (simp add: closed_under_empty)
  from components_from_props[OF this, of "nodes G"]
  show ?thesis by (simp add: connected_components_def)
qed

lemma components_are_classes:
  assumes "c \<in> set (connected_components G)"
  shows "c \<noteq> [] \<and> (\<forall>v \<in> set c. set c = component_of (edges G) v)
         \<and> (\<exists>v \<in> set (nodes G). set c = component_of (edges G) v)"
proof -
  obtain starts where s: "set starts \<subseteq> set (nodes G)"
    "connected_components G = map (\<lambda>v. plain_bfs (edges G) [v] [v]) starts"
    using connected_components_starts[of G] by blast
  then obtain v0 where v0: "v0 \<in> set starts" "c = plain_bfs (edges G) [v0] [v0]"
    using assms by auto
  have c: "set c = component_of (edges G) v0" using v0(2) by (simp add: plain_bfs_component)
  have "v0 \<in> set c" using c component_of_self[of v0 "edges G"] by simp
  then have ne: "c \<noteq> []" by auto
  have "\<forall>v \<in> set c. set c = component_of (edges G) v"
    using c component_of_eq[of _ "edges G" v0] by simp
  then show ?thesis using ne c v0(1) s(1) by blast
qed

lemma components_cover:
  assumes "set (nodes G) = endpoints (edges G)"
  shows "\<Union> (set ` set (connected_components G)) = set (nodes G)"
proof
  show "\<Union> (set ` set (connected_components G)) \<subseteq> set (nodes G)"
  proof
    fix w assume "w \<in> \<Union> (set ` set (connected_components G))"
    then obtain c where c: "c \<in> set (connected_components G)" "w \<in> set c" by blast
    then obtain v where v: "v \<in> set (nodes G)" "set c = component_of (edges G) v"
      using components_are_classes[OF c(1)] by blast
    then show "w \<in> set (nodes G)"
      using c(2) component_of_endpoints[of "edges G" v] assms by auto
  qed
next
  obtain starts where s:
    "connected_components G = map (\<lambda>v. plain_bfs (edges G) [v] [v]) starts"
    "set (nodes G) \<subseteq> (\<Union>v \<in> set starts. component_of (edges G) v)"
    using connected_components_starts[of G] by blast
  show "set (nodes G) \<subseteq> \<Union> (set ` set (connected_components G))"
  proof
    fix w assume "w \<in> set (nodes G)"
    then obtain v where v: "v \<in> set starts" "w \<in> component_of (edges G) v" using s(2) by blast
    then have "w \<in> set (plain_bfs (edges G) [v] [v])" by (simp add: plain_bfs_component)
    moreover have "plain_bfs (edges G) [v] [v] \<in> set (connected_components G)"
      using v(1) s(1) by simp
    ultimately show "w \<in> \<Union> (set ` set (connected_components G))" by blast
  qed
qed

lemma components_disjoint:
  assumes "i < j" and "j < length (connected_components G)"
  shows "set (connected_components G ! i) \<inter> set (connected_components G ! j) = {}"
proof -
  obtain starts where s:
    "connected_components G = map (\<lambda>v. plain_bfs (edges G) [v] [v]) starts"
    "\<forall>i j. i < j \<and> j < length starts \<longrightarrow>
            component_of (edges G) (starts ! i) \<inter> component_of (edges G) (starts ! j) = {}"
    using connected_components_starts[of G] by blast
  have len: "j < length starts" "i < length starts" using assms s(1) by simp_all
  have "component_of (edges G) (starts ! i) \<inter> component_of (edges G) (starts ! j) = {}"
    using s(2) assms(1) len(1) by blast
  then show ?thesis using len by (simp add: s(1) plain_bfs_component)
qed

lemma component_has_edge:
  assumes "set (nodes G) = endpoints (edges G)" and "c \<in> set (connected_components G)"
  shows "subgraph_edges (edges G) c \<noteq> []"
proof -
  obtain v where v: "v \<in> set (nodes G)" "set c = component_of (edges G) v"
    using components_are_classes[OF assms(2)] by blast
  then have "v \<in> fst ` set (edges G) \<or> v \<in> snd ` set (edges G)"
    using assms(1) by (simp add: endpoints_def)
  then obtain u w where e: "(u, w) \<in> set (edges G)" "u = v \<or> w = v"
    by force
  have adj: "(u, w) \<in> adjacent (edges G)" "(w, u) \<in> adjacent (edges G)"
    using e(1) by (simp_all add: adjacent_def has_edge_def)
  have "u \<in> component_of (edges G) v \<and> w \<in> component_of (edges G) v"
  proof (cases "u = v")
    case True
    then show ?thesis using adj(1) by (auto simp: component_of_def)
  next
    case False
    then have "w = v" using e(2) by simp
    then show ?thesis using adj(2) by (auto simp: component_of_def)
  qed
  then have "(u, w) \<in> set (subgraph_edges (edges G) c)"
    using e(1) v(2) by (simp add: subgraph_edges_def)
  then show ?thesis by auto
qed

lemma build_graph_Nil: "edges (build_graph []) = []"
  by (simp add: build_graph_def)

lemma longest_of_nonempty_graph:
  assumes "edges (build_graph (filter is_LineString compliant_geom)) \<noteq> []"
  shows "\<exists>pre longest post.
       connected_components (build_graph (filter is_LineString compliant_geom))
         = pre @ longest # post
     \<and> (\<forall>c \<in> set pre.
           total_length (edges (build_graph (filter is_LineString compliant_geom))) c
           < total_length (edges (build_graph (filter is_LineString compliant_geom))) longest)
     \<and> (\<forall>c \<in> set post.
           total_length (edges (build_graph (filter is_LineString compliant_geom))) c
           \<le> total_length (edges (build_graph (filter is_LineString compliant_geom))) longest)
     \<and> get_longest_network compliant_geom =
         Inr (Some \<lparr>ftype = ''Feature'',
                    fgeometry = MultiLineString
                      (map (\<lambda>e. [fst e, snd e])
                         (subgraph_edges (edges (build_graph (filter is_LineString compliant_geom)))
                            longest)),
                    properties = []\<rparr>)"
proof -
  let ?lines = "filter is_LineString compliant_geom"
  let ?G = "build_graph ?lines"
  let ?es = "edges ?G"
  have lines: "?lines \<noteq> []" using assms build_graph_Nil by auto
  have wf: "set (nodes ?G) = endpoints ?es" by (rule build_graph_nodes)
  have "endpoints ?es \<noteq> {}" using assms by (cases ?es) (auto simp: endpoints_def)
  then have "\<Union> (set ` set (connected_components ?G)) \<noteq> {}"
    using components_cover[OF wf] wf by simp
  then obtain c cs where comps: "connected_components ?G = c # cs"
    by (cases "connected_components ?G") auto
  let ?r = "max_by (total_length ?es) c cs"
  obtain pre post where p: "c # cs = pre @ ?r # post"
    "\<forall>y \<in> set pre. total_length ?es y < total_length ?es ?r"
    "\<forall>y \<in> set post. total_length ?es y \<le> total_length ?es ?r"
    using max_by_first_max[of c cs "total_length ?es"] by blast
  have "?r \<in> set (c # cs)" unfolding p(1) by simp
  then have "?r \<in> set (connected_components ?G)" by (simp only: comps)
  then have ne: "subgraph_edges ?es ?r \<noteq> []" by (rule component_has_edge[OF wf])
  have res: "get_longest_network compliant_geom =
         Inr (Some \<lparr>ftype = ''Feature'',
                    fgeometry = MultiLineString (map (\<lambda>e. [fst e, snd e]) (subgraph_edges ?es ?r)),
                    properties = []\<rparr>)"
    using lines comps ne by (simp add: get_longest_network_def Let_def)
  have split: "connected_components ?G = pre @ ?r # post" using comps p(1) by simp
  show ?thesis
    by (intro exI[of _ pre] exI[of _ ?r] exI[of _ post] conjI) (fact split p(2) p(3) res)+
qed

lemmas net_defs = get_longest_network_def build_graph_def segments_def add_edge_def add_node_def
  has_edge_def connected_components_def unseen_neighbors_def neighbors_def subgraph_edges_def
  total_length_def seg_length_def max_by_def plain_bfs.simps

subsection \<open>The longest compliant network\<close>

lemma network_example:
  "get_longest_network
     [LineString [(0, 0), (4, 0)], LineString [(4, 0), (4, 6)],
      LineString [(100, 0), (110, 0), (110, 15)]]
   = Inr (Some \<lparr>ftype = ''Feature'',
                fgeometry = MultiLineString [[(100, 0), (110, 0)], [(110, 0), (110, 15)]],
                properties = []\<rparr>)"
  by (simp add: net_defs Let_def)

lemma network_example_graph:
  "build_graph [LineString [(0, 0), (4, 0)], LineString [(4, 0), (4, 6)],
                LineString [(100, 0), (110, 0), (110, 15)]]
   = \<lparr>nodes = [(0, 0), (4, 0), (4, 6), (100, 0), (110, 0), (110, 15)],
      edges = [((0, 0), (4, 0)), ((4, 0), (4, 6)), ((100, 0), (110, 0)), ((110, 0), (110, 15))]\<rparr>"
  by (simp add: net_defs)

lemma network_example_components:
  "connected_components
     \<lparr>nodes = [(0, 0), (4, 0), (4, 6), (100, 0), (110, 0), (110, 15)],
      edges = [((0, 0), (4, 0)), ((4, 0), (4, 6)), ((100, 0), (110, 0)), ((110, 0), (110::real, 15::real))]\<rparr>
   = [[(0, 0), (4, 0), (4, 6)], [(100, 0), (110, 0), (110, 15)]]"
  by (simp add: net_defs Let_def)

lemma network_example_lengths:
  "total_length [((0, 0), (4, 0)), ((4, 0), (4, 6)), ((100, 0), (110, 0)), ((110, 0), (110, 15))]
     [(0, 0), (4, 0), (4, 6)] = 10"
  "total_length [((0, 0), (4, 0)), ((4, 0), (4, 6)), ((100, 0), (110, 0)), ((110, 0), (110, 15))]
     [(100, 0), (110, 0), (110, 15)] = 25"
  by (simp_all add: net_defs)

lemma network_no_lines: "filter is_LineString compliant_geom = [] \<Longrightarrow> get_longest_network compliant_geom = Inr None"
  by (simp add: get_longest_network_def)

lemma network_example_with_point:
  "get_longest_network
     [LineString [(0, 0), (4, 0)], LineString [(4, 0), (4, 6)], Point (7, 7),
        LineString [(100, 0), (110, 0), (110, 15)]]
   = Inr (Some \<lparr>ftype = ''Feature'',
                fgeometry = MultiLineString [[(100, 0), (110, 0)], [(110, 0), (110, 15)]],
                properties = []\<rparr>)"
  by (simp add: net_defs Let_def)

text \<open>
  C8: for the line strings \<open>lines\<close> among the input, the graph \<open>G\<close> built from them
  and its list \<open>comps\<close> of components: the edges of \<open>G\<close> are the segments of the
  lines; the components are non-empty connectivity classes that cover the nodes and
  are pairwise disjoint (a partition); and when the graph has an edge, the result is
  the feature whose multi-line geometry holds the segments of one component
  \<open>longest\<close>, whose total length is greater than that of every component before it
  and not less than that of every component after it (the first maximal one). For the
  line sets of total lengths 10 and 25 the result is the component of length 25, and
  for no geometries it is \<^verbatim>\<open>None\<close>.
\<close>

theorem get_longest_network_longest_component:
  assumes "lines = filter is_LineString compliant_geom"
    and "G = build_graph lines"
    and "comps = connected_components G"
  shows "(edges G \<noteq> [] \<longrightarrow>
           (\<exists>pre longest post.
               comps = pre @ longest # post
             \<and> (\<forall>c \<in> set pre. total_length (edges G) c < total_length (edges G) longest)
             \<and> (\<forall>c \<in> set post. total_length (edges G) c \<le> total_length (edges G) longest)
             \<and> get_longest_network compliant_geom =
                 Inr (Some \<lparr>ftype = ''Feature'',
                            fgeometry = MultiLineString
                              (map (\<lambda>e. [fst e, snd e]) (subgraph_edges (edges G) longest)),
                            properties = []\<rparr>)))
       \<and> (\<forall>u w. has_edge (edges G) u w \<longleftrightarrow>
             (\<exists>line \<in> set lines. (u, w) \<in> set (segments (coords line))
                                 \<or> (w, u) \<in> set (segments (coords line))))
       \<and> (\<forall>c \<in> set comps. c \<noteq> [] \<and> (\<forall>v \<in> set c. set c = component_of (edges G) v))
       \<and> \<Union> (set ` set comps) = set (nodes G)
       \<and> (\<forall>i j. i < j \<and> j < length comps \<longrightarrow> set (comps ! i) \<inter> set (comps ! j) = {})
       \<and> get_longest_network
            [LineString [(0, 0), (4, 0)], LineString [(4, 0), (4, 6)],
             LineString [(100, 0), (110, 0), (110, 15)]]
          = Inr (Some \<lparr>ftype = ''Feature'',
                       fgeometry = MultiLineString [[(100, 0), (110, 0)], [(110, 0), (110, 15)]],
                       properties = []\<rparr>)
       \<and> get_longest_network [] = Inr None"
proof (intro conjI)
  show "edges G \<noteq> [] \<longrightarrow>
           (\<exists>pre longest post.
               comps = pre @ longest # post
             \<and> (\<forall>c \<in> set pre. total_length (edges G) c < total_length (edges G) longest)
             \<and> (\<forall>c \<in> set post. total_length (edges G) c \<le> total_length (edges G) longest)
             \<and> get_longest_network compliant_geom =
                 Inr (Some \<lparr>ftype = ''Feature'',
                            fgeometry = MultiLineString
                              (map (\<lambda>e. [fst e, snd e]) (subgraph_edges (edges G) longest)),
                            properties = []\<rparr>))"
    unfolding assms by (rule impI) (rule longest_of_nonempty_graph)
  show "\<forall>u w. has_edge (edges G) u w \<longleftrightarrow>
             (\<exists>line \<in> set lines. (u, w) \<in> set (segments (coords line))
                                 \<or> (w, u) \<in> set (segments (coords line)))"
    unfolding assms(2) by (intro allI) (rule build_graph_has_edge)
  show "\<forall>c \<in> set comps. c \<noteq> [] \<and> (\<forall>v \<in> set c. set c = component_of (edges G) v)"
    unfolding assms(3) using components_are_classes[of _ G] by blast
  show "\<Union> (set ` set comps) = set (nodes G)"
    unfolding assms(3) assms(2) by (rule components_cover) (rule build_graph_nodes)
  show "\<forall>i j. i < j \<and> j < length comps \<longrightarrow> set (comps ! i) \<inter> set (comps ! j) = {}"
    unfolding assms(3) using components_disjoint[of _ _ G] by blast
  show "get_longest_network
            [LineString [(0, 0), (4, 0)], LineString [(4, 0), (4, 6)],
             LineString [(100, 0), (110, 0), (110, 15)]]
          = Inr (Some \<lparr>ftype = ''Feature'',
                       fgeometry = MultiLineString [[(100, 0), (110, 0)], [(110, 0), (110, 15)]],
                       properties = []\<rparr>)"
    by (rule network_example)
  show "get_longest_network [] = Inr None"
    by (simp add: network_no_lines)
qed

theorem get_longest_network_longest_component_witness:
  "[LineString [(0, 0), (4, 0)], LineString [(4, 0), (4, 6)],
        LineString [(100, 0), (110, 0), (110, 15)]]
   = filter is_LineString
       [LineString [(0, 0), (4, 0)], LineString [(4, 0), (4, 6)], Point (7, 7),
        LineString [(100, 0), (110, 0), (110, 15)]]
   \<and> edges (build_graph
       [LineString [(0, 0), (4, 0)], LineString [(4, 0), (4, 6)],
        LineString [(100, 0), (110, 0), (110, 15)]]) \<noteq> []
   \<and> (\<exists>pre longest post.
         connected_components (build_graph
           [LineString [(0, 0), (4, 0)], LineString [(4, 0), (4, 6)],
        LineString [(100, 0), (110, 0), (110, 15)]])
           = pre @ longest # post
       \<and> (\<forall>c \<in> set pre.
             total_length (edges (build_graph
               [LineString [(0, 0), (4, 0)], LineString [(4, 0), (4, 6)],
        LineString [(100, 0), (110, 0), (110, 15)]])) c
             < total_length (edges (build_graph
               [LineString [(0, 0), (4, 0)], LineString [(4, 0), (4, 6)],
        LineString [(100, 0), (110, 0), (110, 15)]])) longest)
       \<and> (\<forall>c \<in> set post.
             total_length (edges (build_graph
               [LineString [(0, 0), (4, 0)], LineString [(4, 0), (4, 6)],
        LineString [(100, 0), (110, 0), (110, 15)]])) c
             \<le> total_length (edges (build_graph
               [LineString [(0, 0), (4, 0)], LineString [(4, 0), (4, 6)],
        LineString [(100, 0), (110, 0), (110, 15)]])) longest)
       \<and> get_longest_network
             [LineString [(0, 0), (4, 0)], LineString [(4, 0), (4, 6)], Point (7, 7),
        LineString [(100, 0), (110, 0), (110, 15)]]
           = Inr (Some \<lparr>ftype = ''Feature'',
                        fgeometry = MultiLineString
                          (map (\<lambda>e. [fst e, snd e])
                             (subgraph_edges (edges (build_graph
                                [LineString [(0, 0), (4, 0)], LineString [(4, 0), (4, 6)],
        LineString [(100, 0), (110, 0), (110, 15)]])) longest)),
                        properties = []\<rparr>))
   \<and> connected_components (build_graph
       [LineString [(0, 0), (4, 0)], LineString [(4, 0), (4, 6)],
        LineString [(100, 0), (110, 0), (110, 15)]])
     = [[(0, 0), (4, 0), (4, 6)], [(100, 0), (110, 0), (110, 15)]]
   \<and> total_length [((0, 0), (4, 0)), ((4, 0), (4, 6)), ((100, 0), (110, 0)), ((110, 0), (110, 15))]
        [(0, 0), (4, 0), (4, 6)] = 10
   \<and> total_length [((0, 0), (4, 0)), ((4, 0), (4, 6)), ((100, 0), (110, 0)), ((110, 0), (110, 15))]
        [(100, 0), (110, 0), (110, 15)] = 25
   \<and> get_longest_network
       [LineString [(0, 0), (4, 0)], LineString [(4, 0), (4, 6)], Point (7, 7),
        LineString [(100, 0), (110, 0), (110, 15)]]
     = Inr (Some \<lparr>ftype = ''Feature'',
                  fgeometry = MultiLineString [[(100, 0), (110, 0)], [(110, 0), (110, 15)]],
                  properties = []\<rparr>)"
proof -
  let ?L = "[LineString [(0, 0), (4, 0)], LineString [(4, 0), (4, 6)],
        LineString [(100, 0), (110, 0), (110, 15)]]"
  let ?I = "[LineString [(0, 0), (4, 0)], LineString [(4, 0), (4, 6)], Point (7, 7),
        LineString [(100, 0), (110, 0), (110, 15)]]"
  have f: "?L = filter is_LineString ?I" by simp
  have ne: "edges (build_graph ?L) \<noteq> []" by (simp add: network_example_graph)
  note t = get_longest_network_longest_component[where compliant_geom = ?I and lines = ?L
             and G = "build_graph ?L" and comps = "connected_components (build_graph ?L)",
             OF f refl refl]
  note ex = t[THEN conjunct1, THEN mp, OF ne]
  have c: "connected_components (build_graph ?L)
             = [[(0, 0), (4, 0), (4, 6)], [(100, 0), (110, 0), (110, 15)]]"
    by (simp add: network_example_graph network_example_components)
  show ?thesis
    by (intro conjI) (fact f ne ex c network_example_lengths network_example_with_point)+
qed

text \<open>
  C10: the result for a list of geometries is the result for its line strings alone;
  a geometry that is no line string can be removed from the list without changing the
  result; and a list without any line string gives \<^verbatim>\<open>None\<close>, however long it is.
\<close>

theorem get_longest_network_only_LineStrings:
  "get_longest_network compliant_geom
     = get_longest_network (filter is_LineString compliant_geom)
   \<and> (\<not> is_LineString g \<longrightarrow>
        get_longest_network (before @ g # after) = get_longest_network (before @ after))
   \<and> ((\<forall>g \<in> set compliant_geom. \<not> is_LineString g) \<longrightarrow>
        get_longest_network compliant_geom = Inr None)"
  by (simp add: get_longest_network_def)

theorem get_longest_network_only_LineStrings_witness:
  "\<not> is_LineString (MultiLineString [[(5, 5), (9, 9)]])
   \<and> get_longest_network [LineString [(0, 0), (1, 0)], MultiLineString [[(5, 5), (9, 9)]]]
     = get_longest_network [LineString [(0, 0), (1, 0)]]
   \<and> get_longest_network [LineString [(0, 0), (1, 0)]]
     = Inr (Some \<lparr>ftype = ''Feature'', fgeometry = MultiLineString [[(0, 0), (1, 0)]],
                  properties = []\<rparr>)
   \<and> get_longest_network [MultiLineString [[(5, 5), (9, 9)]], Point (0, 0),
                           MultiLineString [[(0, 0), (1, 0)], [(1, 0), (2, 0)]]]
     = Inr None"
  using get_longest_network_only_LineStrings[where
          compliant_geom = "[MultiLineString [[(5, 5), (9, 9)]], Point (0, 0),
                             MultiLineString [[(0, 0), (1, 0)], [(1, 0), (2, 0)]]]"
          and g = "MultiLineString [[(5, 5), (9, 9)]]"
          and before = "[LineString [(0, 0), (1, 0)]]" and after = "[]"]
  by (simp add: net_defs Let_def)

end
